theory Spec2Isabelle
  imports Main "HOL-Library.Sublist"
begin

section \<open>Python values, exceptions and observable effects\<close>

text \<open>
  A response payload is what \<^verbatim>\<open>json.loads\<close> returns: \<open>None\<close>, a bool, a number, a
  string, a list, or a dict with string keys (here an association list whose first entry
  for a key is the one looked up).
\<close>

datatype json =
    JNull
  | JBool bool
  | JNum int
  | JStr string
  | JArr "json list"
  | JObj "(string \<times> json) list"

text \<open>
  The exceptions the code can meet. \<open>HttpError status text\<close> carries
  \<^verbatim>\<open>e.resp.status\<close> and \<^verbatim>\<open>str(e)\<close>.
\<close>

datatype exn =
    HttpError nat string
  | AttributeError string
  | KeyError string
  | IndexError
  | TypeError
  | ValueError
  | IntegrityError
  | OperationalError string
  | ProgrammingError
  | OtherError string

text \<open>The requests the code builds on the \<^verbatim>\<open>youtube\<close> handle.\<close>

datatype request =
    ChannelsList string string
      \<comment> \<open>\<^verbatim>\<open>channels().list(part=.., id=..)\<close>\<close>
  | PlaylistItemsList json json
      \<comment> \<open>\<^verbatim>\<open>playlistItems().list(part="snippet", playlistId=.., maxResults=50, pageToken=..)\<close>\<close>
  | VideosList "string list"
      \<comment> \<open>\<^verbatim>\<open>videos().list(part=.., id=','.join(batch_ids))\<close>, by its batch\<close>
  | CommentThreadsList string json
      \<comment> \<open>\<^verbatim>\<open>commentThreads().list(part="snippet", videoId=.., maxResults=50, pageToken=..)\<close>\<close>

text \<open>
  The notifications, one constructor for each \<^verbatim>\<open>st.*\<close> call of the functions below,
  with the values its message interpolates.
\<close>

datatype level = Success | Info | Warning | Error | Write | Subheader

datatype msg =
    QuotaRetry nat nat
  | ResourceNotFound exn
  | UnexpectedApiError exn
  | UnexpectedCallError exn
  | RetriesExhausted
  | NoChannelData string
  | ChannelInserted json
  | ChannelExists json string
  | ChannelInsertError string exn
  | ChannelNotFetched string
  | FetchingPlaylist string
  | NoContentDetails string
  | FetchingVideoDetails
  | NoVideoIds
  | FetchingBatch "string list"
  | NoBatchData "string list"
  | VideosInserted nat
  | VideoInsertError exn
  | NoVideoData
  | FoundVideoIds nat
  | NoVideoFetched
  | NoVideoIdsFound
  | NoVideoIdsForComments
  | FetchingComments nat
  | FetchingCommentsFor string
  | CommentsDisabled string
  | Unhandled403 string json
  | NoMoreComments string
  | CommentsInserted nat
  | CommentInsertError exn
  | NoCommentData

text \<open>
  What an observer sees of one \<^verbatim>\<open>safe_api_call\<close>, in order: \<open>Invoke\<close> for each
  evaluation of \<^verbatim>\<open>request_callable(*args, **kwargs).execute()\<close>, \<open>Sleep d\<close> for
  \<^verbatim>\<open>time.sleep(d)\<close>, \<open>Notify\<close> for a notification.
\<close>

datatype event = Invoke | Sleep nat | Notify level msg

section \<open>The resilient API client\<close>

text \<open>
  \<^verbatim>\<open>
  def safe_api_call(request_callable, *args, **kwargs):
      retries = 0
      max_retries = 5
      initial_delay = 1 # seconds
      while retries < max_retries:
          try:
              return request_callable(*args, **kwargs).execute()
          except HttpError as e:
              if e.resp.status == 403 and "quotaExceeded" in str(e):
                  delay = initial_delay * (2 ** retries)
                  st.warning(f"Quota exceeded. Retrying in {delay:.1f} seconds ...")
                  time.sleep(delay)
                  retries += 1
              elif e.resp.status == 404:
                  st.warning(f"Resource not found (404) for request. Skipping. Error: {e}")
                  return None
              else:
                  st.error(f"An unexpected API error occurred: {e}")
                  raise
          except Exception as e:
              st.error(f"An unexpected error occurred during API call: {e}")
              raise
      st.error(f"Failed after {max_retries} retries due to quota issues. ...")
      return None
  \<close>
  What \<^verbatim>\<open>request_callable(*args, **kwargs)\<close> returns is an object on which
  \<^verbatim>\<open>.execute()\<close> is called next: a request object (\<open>PyRequest r\<close>, where \<open>r\<close> is
  what executing it gives), or a response dict (\<open>PyDict d\<close>), which has no attribute
  \<^verbatim>\<open>execute\<close>.
\<close>

datatype pyobj = PyRequest "exn + json" | PyDict json

fun execute :: "pyobj \<Rightarrow> exn + json" where
  "execute (PyRequest r) = r"
| "execute (PyDict d) = Inl (AttributeError ''execute'')"

text \<open>
  The callable is invoked once in each round of the loop, so it is given as the sequence
  of its invocations: \<open>request_callable k\<close> is what invocation number \<open>k\<close> (from 0) does,
  raise or return an object. \<open>attempt\<close> is the body of the \<^verbatim>\<open>try\<close>.
\<close>

type_synonym callable = "nat \<Rightarrow> exn + pyobj"

definition attempt :: "exn + pyobj \<Rightarrow> exn + json" where
  "attempt c = (case c of Inl e \<Rightarrow> Inl e | Inr obj \<Rightarrow> execute obj)"

definition max_retries :: nat where
  "max_retries = 5"

definition initial_delay :: nat where
  "initial_delay = 1"

text \<open>
  The loop from a given value of \<^verbatim>\<open>retries\<close>: the value returned (\<open>Inl\<close> an exception
  raised, \<open>Inr None\<close> for \<^verbatim>\<open>None\<close>, \<open>Inr (Some p)\<close> a payload) and the events in order.
  Each failed round adds one to \<^verbatim>\<open>retries\<close>, so round \<open>retries\<close> is invocation
  \<open>retries\<close> of the callable.
\<close>

function safe_api_loop :: "callable \<Rightarrow> nat \<Rightarrow> (exn + json option) \<times> event list" where
  "safe_api_loop request_callable retries =
     (if retries < max_retries then
        (case attempt (request_callable retries) of
           Inr payload \<Rightarrow> (Inr (Some payload), [Invoke])
         | Inl (HttpError status text) \<Rightarrow>
             if status = 403 \<and> sublist ''quotaExceeded'' text then
               (let delay = initial_delay * 2 ^ retries;
                    rest = safe_api_loop request_callable (retries + 1)
                in (fst rest,
                    [Invoke, Notify Warning (QuotaRetry delay (retries + 1)), Sleep delay] @ snd rest))
             else if status = 404 then
               (Inr None, [Invoke, Notify Warning (ResourceNotFound (HttpError status text))])
             else
               (Inl (HttpError status text),
                [Invoke, Notify Error (UnexpectedApiError (HttpError status text))])
         | Inl e \<Rightarrow> (Inl e, [Invoke, Notify Error (UnexpectedCallError e)]))
      else (Inr None, [Notify Error RetriesExhausted]))"
  by pat_completeness auto
termination
  by (relation "measure (\<lambda>(c, retries). max_retries - retries)") auto

declare safe_api_loop.simps [simp del]

definition safe_api_call :: "callable \<Rightarrow> (exn + json option) \<times> event list" where
  "safe_api_call request_callable = safe_api_loop request_callable 0"

text \<open>Readings of an event list.\<close>

definition attempts :: "event list \<Rightarrow> nat" where
  "attempts evs = length (filter (\<lambda>ev. ev = Invoke) evs)"

fun sleeps :: "event list \<Rightarrow> nat list" where
  "sleeps [] = []"
| "sleeps (Sleep d # evs) = d # sleeps evs"
| "sleeps (ev # evs) = sleeps evs"

text \<open>
  The quota-exceeded outcome of one attempt: an \<^verbatim>\<open>HttpError\<close> with status 403 whose
  text contains \<^verbatim>\<open>quotaExceeded\<close>.
\<close>

fun quota_exceeded :: "exn + json \<Rightarrow> bool" where
  "quota_exceeded (Inl (HttpError status text)) = (status = 403 \<and> sublist ''quotaExceeded'' text)"
| "quota_exceeded r = False"

text \<open>The not-found outcome: an \<^verbatim>\<open>HttpError\<close> with status 404.\<close>

fun not_found :: "exn + json \<Rightarrow> bool" where
  "not_found (Inl (HttpError status text)) = (status = 404)"
| "not_found r = False"

text \<open>The events of the backoff rounds \<open>i, \<dots>, k - 1\<close>.\<close>

definition backoff_events :: "nat \<Rightarrow> nat \<Rightarrow> event list" where
  "backoff_events i k =
     concat (map (\<lambda>j. [Invoke, Notify Warning (QuotaRetry (2 ^ j) (j + 1)), Sleep (2 ^ j)]) [i..<k])"

section \<open>Python strings and \<^verbatim>\<open>int\<close>\<close>

text \<open>
  The library semantics written out in this section are those of CPython 3.11.

  A Python string is the list of its code points, the integers \<^verbatim>\<open>ord\<close> gives for its
  characters. The payloads and dict keys of the sections below are HOL strings, whose
  characters are the code points below 256; \<open>ustr\<close> reads such a string as a Python
  string.
\<close>

type_synonym ustring = "int list"

definition code_point :: "char \<Rightarrow> int" where
  "code_point c = of_char c"

definition ustr :: "string \<Rightarrow> ustring" where
  "ustr s = map code_point s"

text \<open>
  The decimal digits of the Unicode Character Database 14.0 (general category \<open>Nd\<close>): 66
  runs of ten consecutive code points with the values 0 to 9, listed here by the code point
  of their zero. \<^verbatim>\<open>\d\<close> in a \<^verbatim>\<open>str\<close> pattern matches exactly these characters, and
  \<^verbatim>\<open>int\<close> reads each of them as its value.
\<close>

definition digit_zeros :: "int list" where
  "digit_zeros =
     [0x30, 0x660, 0x6F0, 0x7C0, 0x966, 0x9E6, 0xA66, 0xAE6, 0xB66, 0xBE6, 0xC66, 0xCE6,
      0xD66, 0xDE6, 0xE50, 0xED0, 0xF20, 0x1040, 0x1090, 0x17E0, 0x1810, 0x1946, 0x19D0,
      0x1A80, 0x1A90, 0x1B50, 0x1BB0, 0x1C40, 0x1C50, 0xA620, 0xA8D0, 0xA900, 0xA9D0,
      0xA9F0, 0xAA50, 0xABF0, 0xFF10, 0x104A0, 0x10D30, 0x11066, 0x110F0, 0x11136,
      0x111D0, 0x112F0, 0x11450, 0x114D0, 0x11650, 0x116C0, 0x11730, 0x118E0, 0x11950,
      0x11C50, 0x11D50, 0x11DA0, 0x16A60, 0x16AC0, 0x16B50, 0x1D7CE, 0x1D7D8, 0x1D7E2,
      0x1D7EC, 0x1D7F6, 0x1E140, 0x1E2F0, 0x1E950, 0x1FBF0]"

definition decimal :: "int \<Rightarrow> int option" where
  "decimal c =
     (case find (\<lambda>z. z \<le> c \<and> c < z + 10) digit_zeros of
        None \<Rightarrow> None
      | Some z \<Rightarrow> Some (c - z))"

definition is_digit :: "int \<Rightarrow> bool" where
  "is_digit c = (decimal c \<noteq> None)"

definition digit_val :: "int \<Rightarrow> int" where
  "digit_val c = (case decimal c of None \<Rightarrow> 0 | Some v \<Rightarrow> v)"

text \<open>The number a list of digits writes in base ten.\<close>

definition int_of_digits :: "ustring \<Rightarrow> int" where
  "int_of_digits ds = foldl (\<lambda>a c. 10 * a + digit_val c) 0 ds"

text \<open>
  The white space \<^verbatim>\<open>int\<close> skips at both ends of a string: the characters for which
  \<^verbatim>\<open>str.isspace\<close> holds, but for the four separators \<^verbatim>\<open>U+001C\<close> to \<^verbatim>\<open>U+001F\<close>.
\<close>

definition spaces :: "int list" where
  "spaces =
     [0x09, 0x0A, 0x0B, 0x0C, 0x0D, 0x20, 0x85, 0xA0, 0x1680, 0x2000, 0x2001, 0x2002,
      0x2003, 0x2004, 0x2005, 0x2006, 0x2007, 0x2008, 0x2009, 0x200A, 0x2028, 0x2029,
      0x202F, 0x205F, 0x3000]"

definition is_space :: "int \<Rightarrow> bool" where
  "is_space c = (c \<in> set spaces)"

definition strip :: "ustring \<Rightarrow> ustring" where
  "strip s = rev (dropWhile is_space (rev (dropWhile is_space s)))"

text \<open>
  The digits of a literal: digits with single underscores between them. \<open>None\<close> when the
  text is empty, begins or ends with an underscore, has two underscores in a row, or holds
  any other character.
\<close>

fun literal_digits :: "ustring \<Rightarrow> ustring option" where
  "literal_digits [] = None"
| "literal_digits [c] = (if is_digit c then Some [c] else None)"
| "literal_digits (c # d # rest) =
     (if is_digit c then
        map_option (\<lambda>ds. c # ds) (literal_digits (if d = 0x5F then rest else d # rest))
      else None)"

text \<open>
  \<^verbatim>\<open>sys.get_int_max_str_digits()\<close> as the interpreter starts with it: a literal with
  more digits (leading zeros counted, sign and underscores not) is refused. The limit is
  in CPython from 3.11 on, and in the releases 3.7.14, 3.8.14, 3.9.14 and 3.10.7 and later
  of the older lines.
\<close>

definition int_max_str_digits :: nat where
  "int_max_str_digits = 4300"

text \<open>\<^verbatim>\<open>int(s)\<close> for a string \<open>s\<close>: it raises \<open>ValueError\<close> or returns the number.\<close>

definition py_int_str :: "ustring \<Rightarrow> exn + int" where
  "py_int_str s =
     (let body = strip s;
          negative = (body \<noteq> [] \<and> hd body = 0x2D);
          signed = (body \<noteq> [] \<and> (hd body = 0x2D \<or> hd body = 0x2B))
      in case literal_digits (if signed then tl body else body) of
           None \<Rightarrow> Inl ValueError
         | Some ds \<Rightarrow>
             if int_max_str_digits < length ds then Inl ValueError
             else Inr (if negative then - int_of_digits ds else int_of_digits ds))"

section \<open>The remote platform and the call sites\<close>

text \<open>
  The platform is a parameter: \<open>remote n req\<close> is what executing the HTTP request \<open>req\<close>
  gives when \<open>n\<close> requests were executed before it in the run, either an exception raised
  by \<^verbatim>\<open>HttpRequest.execute\<close> or the parsed response body.
\<close>

type_synonym remote = "nat \<Rightarrow> request \<Rightarrow> exn + json"

text \<open>
  The observable state of a run: the HTTP requests executed so far and the sleeps and
  notifications so far, each in order.
\<close>

record world =
  http_log :: "request list"
  trace :: "event list"

definition notify :: "level \<Rightarrow> msg \<Rightarrow> world \<Rightarrow> world" where
  "notify l m w = w\<lparr>trace := trace w @ [Notify l m]\<rparr>"

text \<open>
  Every call site of the repository has the form
  \<^verbatim>\<open>safe_api_call(request.execute)\<close> (lines 115, 164, 171--174, 220, 306, 572): the
  callable handed over is the bound method \<^verbatim>\<open>execute\<close> of a request that is already
  built. Invoking it executes the request and returns the response dict;
  \<open>safe_api_call\<close> then calls \<^verbatim>\<open>.execute()\<close> on that dict.
\<close>

definition request_execute :: "remote \<Rightarrow> nat \<Rightarrow> request \<Rightarrow> callable" where
  "request_execute remote n req k =
     (case remote (n + k) req of Inl e \<Rightarrow> Inl e | Inr d \<Rightarrow> Inr (PyDict d))"

text \<open>
  A callable of the shape the signature of \<open>safe_api_call\<close> is written for, such as
  \<^verbatim>\<open>youtube.videos().list\<close> with its keyword arguments: invoking it builds the request,
  and \<^verbatim>\<open>.execute()\<close> runs it. No call site of the repository uses it.
\<close>

definition list_method :: "remote \<Rightarrow> nat \<Rightarrow> request \<Rightarrow> callable" where
  "list_method remote n req k = Inr (PyRequest (remote (n + k) req))"

text \<open>
  A client is what a fetcher calls for one request. The fetchers below take it as a
  parameter; the repository's functions are their instances at \<open>call_site\<close>.
\<close>

type_synonym api = "request \<Rightarrow> world \<Rightarrow> (exn + json option) \<times> world"

definition run_call :: "(nat \<Rightarrow> request \<Rightarrow> callable) \<Rightarrow> api" where
  "run_call mk req w =
     (let res = safe_api_call (mk (length (http_log w)) req)
      in (fst res,
          \<lparr>http_log = http_log w @ replicate (attempts (snd res)) req,
           trace = trace w @ snd res\<rparr>))"

definition call_site :: "remote \<Rightarrow> api" where
  "call_site remote = run_call (request_execute remote)"

section \<open>Python operations on payloads\<close>

text \<open>Truth value of a payload, as \<^verbatim>\<open>if x\<close> and \<^verbatim>\<open>not x\<close> take it.\<close>

fun truthy :: "json \<Rightarrow> bool" where
  "truthy JNull = False"
| "truthy (JBool b) = b"
| "truthy (JNum n) = (n \<noteq> 0)"
| "truthy (JStr s) = (s \<noteq> [])"
| "truthy (JArr xs) = (xs \<noteq> [])"
| "truthy (JObj kvs) = (kvs \<noteq> [])"

text \<open>\<^verbatim>\<open>d.get(k, default)\<close>: only a dict has the method.\<close>

fun dict_get :: "json \<Rightarrow> string \<Rightarrow> json \<Rightarrow> exn + json" where
  "dict_get (JObj kvs) k dflt = Inr (case map_of kvs k of None \<Rightarrow> dflt | Some v \<Rightarrow> v)"
| "dict_get j k dflt = Inl (AttributeError ''get'')"

text \<open>\<^verbatim>\<open>d[k]\<close> with a string key.\<close>

fun getitem :: "json \<Rightarrow> string \<Rightarrow> exn + json" where
  "getitem (JObj kvs) k = (case map_of kvs k of None \<Rightarrow> Inl (KeyError k) | Some v \<Rightarrow> Inr v)"
| "getitem j k = Inl TypeError"

text \<open>\<^verbatim>\<open>xs[i]\<close> with an index \<open>i \<ge> 0\<close>. A parsed dict has no integer key.\<close>

fun getindex :: "json \<Rightarrow> nat \<Rightarrow> exn + json" where
  "getindex (JArr xs) i = (if i < length xs then Inr (xs ! i) else Inl IndexError)"
| "getindex (JStr s) i = (if i < length s then Inr (JStr [s ! i]) else Inl IndexError)"
| "getindex (JObj kvs) i = Inl (KeyError ''<int>'')"
| "getindex j i = Inl TypeError"

text \<open>\<^verbatim>\<open>k in x\<close> for a string \<open>k\<close>.\<close>

fun str_in :: "string \<Rightarrow> json \<Rightarrow> exn + bool" where
  "str_in k (JObj kvs) = Inr (map_of kvs k \<noteq> None)"
| "str_in k (JStr s) = Inr (sublist k s)"
| "str_in k (JArr xs) = Inr (JStr k \<in> set xs)"
| "str_in k j = Inl TypeError"

text \<open>\<^verbatim>\<open>len(x)\<close>.\<close>

fun py_len :: "json \<Rightarrow> exn + nat" where
  "py_len (JArr xs) = Inr (length xs)"
| "py_len (JStr s) = Inr (length s)"
| "py_len (JObj kvs) = Inr (length kvs)"
| "py_len j = Inl TypeError"

text \<open>The elements \<^verbatim>\<open>for x in xs\<close> runs over.\<close>

fun py_iter :: "json \<Rightarrow> exn + json list" where
  "py_iter (JArr xs) = Inr xs"
| "py_iter (JStr s) = Inr (map (\<lambda>c. JStr [c]) s)"
| "py_iter (JObj kvs) = Inr (map (\<lambda>kv. JStr (fst kv)) kvs)"
| "py_iter j = Inl TypeError"

text \<open>Sequencing of steps that may raise.\<close>

definition ebind :: "exn + 'a \<Rightarrow> ('a \<Rightarrow> exn + 'b) \<Rightarrow> exn + 'b" where
  "ebind m f = (case m of Inl e \<Rightarrow> Inl e | Inr x \<Rightarrow> f x)"

text \<open>Applying a step to each element in order, stopping at the first that raises.\<close>

fun emap :: "('a \<Rightarrow> exn + 'b) \<Rightarrow> 'a list \<Rightarrow> exn + 'b list" where
  "emap f [] = Inr []"
| "emap f (x # xs) = ebind (f x) (\<lambda>y. ebind (emap f xs) (\<lambda>ys. Inr (y # ys)))"

text \<open>\<^verbatim>\<open>', '.join(x)\<close>: every element must be a string.\<close>

fun join_strs :: "string list \<Rightarrow> string" where
  "join_strs [] = []"
| "join_strs [s] = s"
| "join_strs (s # ss) = s @ '', '' @ join_strs ss"

definition the_str :: "json \<Rightarrow> exn + string" where
  "the_str j = (case j of JStr s \<Rightarrow> Inr s | _ \<Rightarrow> Inl TypeError)"

definition py_join :: "json \<Rightarrow> exn + string" where
  "py_join x = ebind (py_iter x) (\<lambda>xs. ebind (emap the_str xs) (\<lambda>ss. Inr (join_strs ss)))"

text \<open>\<^verbatim>\<open>int(x)\<close> for a payload value.\<close>

fun py_int :: "json \<Rightarrow> exn + int" where
  "py_int (JNum n) = Inr n"
| "py_int (JBool b) = Inr (if b then 1 else 0)"
| "py_int (JStr s) = py_int_str (ustr s)"
| "py_int j = Inl TypeError"

text \<open>Following keys and indices into a payload, as \<^verbatim>\<open>r["items"][0]["id"]\<close> does.\<close>

datatype step = Key string | Idx nat

fun path :: "json \<Rightarrow> step list \<Rightarrow> exn + json" where
  "path j [] = Inr j"
| "path j (Key k # ps) = ebind (getitem j k) (\<lambda>v. path v ps)"
| "path j (Idx i # ps) = ebind (getindex j i) (\<lambda>v. path v ps)"

text \<open>
  \<^verbatim>\<open>response and response.get("items")\<close> as a condition, for a response that is not
  \<open>None\<close>.
\<close>

definition has_items :: "json \<Rightarrow> exn + bool" where
  "has_items response =
     (if truthy response then
        ebind (dict_get response ''items'' JNull) (\<lambda>items. Inr (truthy items))
      else Inr False)"

text \<open>A record of a DataFrame: its columns in order, each with its cell.\<close>

type_synonym row = "(string \<times> json) list"

section \<open>Duration codec\<close>

text \<open>
  The Python being modelled (\<^verbatim>\<open>Stream.py\<close>, lines 190--200):
  \<^verbatim>\<open>
  def iso8601_duration_to_seconds(duration):
      match = re.match(r'^PT(?:(\d+)H)?(?:(\d+)M)?(?:(\d+)S)?$', duration)
      if not match:
          return 0
      hours = int(match.group(1)) if match.group(1) else 0
      minutes = int(match.group(2)) if match.group(2) else 0
      seconds = int(match.group(3)) if match.group(3) else 0
      total_seconds = (hours * 3600) + (minutes * 60) + seconds
      return total_seconds
  \<close>
\<close>

text \<open>
  One optional group \<^verbatim>\<open>(?:(\d+)U)?\<close> with unit marker \<open>u\<close>: the longest run of
  digits, taken only when it is not empty and the marker follows it. No shorter run can be
  followed by the marker (a marker is not a digit), so backtracking never finds another
  match, and skipping a group that matches leaves its digits in front of a marker the later
  groups do not accept.
\<close>

definition opt_group :: "int \<Rightarrow> ustring \<Rightarrow> ustring option \<times> ustring" where
  "opt_group u s =
     (let ds = takeWhile is_digit s in
      case dropWhile is_digit s of
        [] \<Rightarrow> (None, s)
      | c # rest \<Rightarrow> if ds \<noteq> [] \<and> c = u then (Some ds, rest) else (None, s))"

text \<open>
  \<^verbatim>\<open>re.match\<close> with the pattern above: \<open>None\<close>, or the three groups. Without the
  MULTILINE flag \<^verbatim>\<open>$\<close> matches at the end of the string and also just before a
  newline that is the last character.
\<close>

definition re_match :: "ustring \<Rightarrow> (ustring option \<times> ustring option \<times> ustring option) option" where
  "re_match duration =
     (case duration of
        p # t # r0 \<Rightarrow>
          if p = code_point (CHR ''P'') \<and> t = code_point (CHR ''T'') then
            (let (h, r1) = opt_group (code_point (CHR ''H'')) r0;
                 (m, r2) = opt_group (code_point (CHR ''M'')) r1;
                 (s, r3) = opt_group (code_point (CHR ''S'')) r2
             in if r3 = [] \<or> r3 = [0x0A] then Some (h, m, s) else None)
          else None
      | _ \<Rightarrow> None)"

text \<open>\<^verbatim>\<open>int(match.group(k)) if match.group(k) else 0\<close>.\<close>

definition group_int :: "ustring option \<Rightarrow> exn + int" where
  "group_int g = (case g of None \<Rightarrow> Inr 0 | Some ds \<Rightarrow> if ds = [] then Inr 0 else py_int_str ds)"

definition iso8601_duration_to_seconds :: "ustring \<Rightarrow> exn + int" where
  "iso8601_duration_to_seconds duration =
     (case re_match duration of
        None \<Rightarrow> Inr 0
      | Some (h, m, s) \<Rightarrow>
          ebind (group_int h) (\<lambda>hours.
          ebind (group_int m) (\<lambda>minutes.
          ebind (group_int s) (\<lambda>seconds.
          Inr ((hours * 3600) + (minutes * 60) + seconds)))))"

text \<open>
  The grammar in the words of the specification: a fixed two-character prefix, then an
  optional hour count, an optional minute count and an optional second count, each a run of
  digits followed by its unit marker. A digit is here what the pattern takes for one, any
  decimal digit of Unicode.
\<close>

definition digit_run :: "ustring \<Rightarrow> bool" where
  "digit_run ds = (ds \<noteq> [] \<and> list_all is_digit ds)"

definition spec_component :: "ustring option \<Rightarrow> char \<Rightarrow> ustring" where
  "spec_component g u = (case g of None \<Rightarrow> [] | Some ds \<Rightarrow> ds @ [code_point u])"

definition spec_token :: "ustring option \<Rightarrow> ustring option \<Rightarrow> ustring option \<Rightarrow> ustring" where
  "spec_token h m s =
     ustr ''PT'' @ spec_component h (CHR ''H'') @ spec_component m (CHR ''M'')
       @ spec_component s (CHR ''S'')"

definition spec_count :: "ustring option \<Rightarrow> bool" where
  "spec_count g = (case g of None \<Rightarrow> True | Some ds \<Rightarrow> digit_run ds)"

definition spec_grammar :: "ustring \<Rightarrow> bool" where
  "spec_grammar tok = (\<exists>h m s. spec_count h \<and> spec_count m \<and> spec_count s \<and> tok = spec_token h m s)"

text \<open>The number a component stands for; a component left out counts as 0.\<close>

definition spec_value :: "ustring option \<Rightarrow> int" where
  "spec_value g = (case g of None \<Rightarrow> 0 | Some ds \<Rightarrow> int_of_digits ds)"

text \<open>A component short enough for \<^verbatim>\<open>int\<close> to convert.\<close>

definition convertible :: "ustring option \<Rightarrow> bool" where
  "convertible g = (case g of None \<Rightarrow> True | Some ds \<Rightarrow> length ds \<le> int_max_str_digits)"

text \<open>
  A duration of ISO 8601 with a weeks or a days component: after the \<open>P\<close> come the
  optional counts of years, months, weeks and days, one of the last two present, and then
  whatever follows (the time part).
\<close>

definition days_token :: "ustring \<Rightarrow> bool" where
  "days_token tok =
     (\<exists>y mo w d rest.
        spec_count y \<and> spec_count mo \<and> spec_count w \<and> spec_count d
        \<and> (w \<noteq> None \<or> d \<noteq> None)
        \<and> tok = ustr ''P'' @ spec_component y (CHR ''Y'') @ spec_component mo (CHR ''M'')
                   @ spec_component w (CHR ''W'') @ spec_component d (CHR ''D'') @ rest)"

section \<open>Channel fetch\<close>

text \<open>
  \<^verbatim>\<open>
  def channel_info(channel_id):
      request = youtube.channels().list(part="snippet,contentDetails,statistics", id=channel_id)
      response = safe_api_call(request.execute)
      if response and response.get("items"):
          data = {"Channel_Name": response["items"][0]["snippet"]["title"],
                  "Channel_Id": response["items"][0]["id"],
                  "Channel_Des": response["items"][0]["snippet"]["description"],
                  "Channel_playid": response["items"][0]["contentDetails"]["relatedPlaylists"]["uploads"],
                  "channel_viewcount": response["items"][0]["statistics"]["viewCount"],
                  "channel_subcount": response["items"][0]["statistics"]["subscriberCount"]}
          return pd.DataFrame(data,index=[0])
      st.warning(f"No channel data found for ID: {channel_id}")
      return pd.DataFrame()
  \<close>
  A DataFrame is the list of its records; \<^verbatim>\<open>df.empty\<close> is the empty list.
\<close>

definition channel_data :: "json \<Rightarrow> exn + row" where
  "channel_data response =
     ebind (path response [Key ''items'', Idx 0, Key ''snippet'', Key ''title'']) (\<lambda>name.
     ebind (path response [Key ''items'', Idx 0, Key ''id'']) (\<lambda>cid.
     ebind (path response [Key ''items'', Idx 0, Key ''snippet'', Key ''description'']) (\<lambda>des.
     ebind (path response [Key ''items'', Idx 0, Key ''contentDetails'', Key ''relatedPlaylists'',
                           Key ''uploads'']) (\<lambda>playid.
     ebind (path response [Key ''items'', Idx 0, Key ''statistics'', Key ''viewCount'']) (\<lambda>views.
     ebind (path response [Key ''items'', Idx 0, Key ''statistics'', Key ''subscriberCount'']) (\<lambda>subs.
     Inr [(''Channel_Name'', name), (''Channel_Id'', cid), (''Channel_Des'', des),
          (''Channel_playid'', playid), (''channel_viewcount'', views),
          (''channel_subcount'', subs)]))))))"

definition channel_info_with :: "api \<Rightarrow> string \<Rightarrow> world \<Rightarrow> (exn + row list) \<times> world" where
  "channel_info_with api channel_id w =
     (case api (ChannelsList ''snippet,contentDetails,statistics'' channel_id) w of
        (Inl e, w1) \<Rightarrow> (Inl e, w1)
      | (Inr None, w1) \<Rightarrow> (Inr [], notify Warning (NoChannelData channel_id) w1)
      | (Inr (Some response), w1) \<Rightarrow>
          (case has_items response of
             Inl e \<Rightarrow> (Inl e, w1)
           | Inr False \<Rightarrow> (Inr [], notify Warning (NoChannelData channel_id) w1)
           | Inr True \<Rightarrow>
               (case channel_data response of
                  Inl e \<Rightarrow> (Inl e, w1)
                | Inr data \<Rightarrow> (Inr [data], w1))))"

definition channel_info :: "remote \<Rightarrow> string \<Rightarrow> world \<Rightarrow> (exn + row list) \<times> world" where
  "channel_info remote = channel_info_with (call_site remote)"

section \<open>Enumeration of a channel's video ids\<close>

text \<open>
  \<^verbatim>\<open>
  def playlist_videos_id(channel_ids):
      all_video_ids = []
      for current_channel_id in channel_ids:
          videos_ids = []
          st.info(f"Fetching playlist for channel: {current_channel_id}")
          response = safe_api_call(youtube.channels().list(part="contentDetails",
                                                           id=current_channel_id).execute)
          if response and 'items' in response and len(response["items"]) > 0:
              playlist_Id = response["items"][0]["contentDetails"]["relatedPlaylists"]["uploads"]
              nextPageToken = None
              while True:
                  response2 = safe_api_call(youtube.playlistItems().list(
                     part="snippet", playlistId=playlist_Id, maxResults=50,
                     pageToken=nextPageToken).execute)
                  if response2 is None:
                      break
                  for i in range(len(response2.get("items", []))):
                      videos_ids.append(response2["items"][i]["snippet"]["resourceId"]["videoId"])
                  nextPageToken = response2.get("nextPageToken")
                  if nextPageToken is None:
                      break
          else:
              st.error(f"No content details found for channel ID: {current_channel_id}. ...")
          all_video_ids.extend(videos_ids)
      return all_video_ids
  \<close>
\<close>

text \<open>The inner \<^verbatim>\<open>for\<close> loop: the video ids of one page, in order.\<close>

definition page_video_ids :: "json \<Rightarrow> exn + json list" where
  "page_video_ids response2 =
     ebind (dict_get response2 ''items'' (JArr [])) (\<lambda>items.
     ebind (py_len items) (\<lambda>n.
     emap (\<lambda>i. ebind (getitem response2 ''items'') (\<lambda>its.
               ebind (getindex its i) (\<lambda>it.
               path it [Key ''snippet'', Key ''resourceId'', Key ''videoId''])))
          [0..<n]))"

text \<open>
  The \<^verbatim>\<open>while True\<close> loop. It has no bound of its own, so the model counts its rounds
  down from \<open>fuel\<close>: \<open>None\<close> says the loop did not leave within \<open>fuel\<close> rounds.
  \<^verbatim>\<open>response2 is None\<close> holds for the \<^verbatim>\<open>None\<close> that \<open>safe_api_call\<close> returns and
  also for a response whose body is \<^verbatim>\<open>null\<close>, which is parsed to \<^verbatim>\<open>None\<close>.
\<close>

fun playlist_pages ::
  "nat \<Rightarrow> api \<Rightarrow> json \<Rightarrow> json \<Rightarrow> json list \<Rightarrow> world \<Rightarrow> ((exn + json list) \<times> world) option" where
  "playlist_pages 0 api playlist_Id nextPageToken videos_ids w = None"
| "playlist_pages (Suc fuel) api playlist_Id nextPageToken videos_ids w =
     (case api (PlaylistItemsList playlist_Id nextPageToken) w of
        (Inl e, w1) \<Rightarrow> Some (Inl e, w1)
      | (Inr None, w1) \<Rightarrow> Some (Inr videos_ids, w1)
      | (Inr (Some response2), w1) \<Rightarrow>
          if response2 = JNull then Some (Inr videos_ids, w1)
          else
            (case page_video_ids response2 of
               Inl e \<Rightarrow> Some (Inl e, w1)
             | Inr ids \<Rightarrow>
                 (case dict_get response2 ''nextPageToken'' JNull of
                    Inl e \<Rightarrow> Some (Inl e, w1)
                  | Inr tok \<Rightarrow>
                      if tok = JNull then Some (Inr (videos_ids @ ids), w1)
                      else playlist_pages fuel api playlist_Id tok (videos_ids @ ids) w1)))"

text \<open>
  \<^verbatim>\<open>response and 'items' in response and len(response["items"]) > 0\<close>, for a response
  that is not \<open>None\<close>.
\<close>

definition has_channel_items :: "json \<Rightarrow> exn + bool" where
  "has_channel_items response =
     (if truthy response then
        ebind (str_in ''items'' response) (\<lambda>present.
          if present then
            ebind (getitem response ''items'') (\<lambda>items.
            ebind (py_len items) (\<lambda>n. Inr (0 < n)))
          else Inr False)
      else Inr False)"

fun playlist_channels ::
  "nat \<Rightarrow> api \<Rightarrow> string list \<Rightarrow> json list \<Rightarrow> world \<Rightarrow> ((exn + json list) \<times> world) option" where
  "playlist_channels fuel api [] all_video_ids w = Some (Inr all_video_ids, w)"
| "playlist_channels fuel api (current_channel_id # rest) all_video_ids w =
     (case api (ChannelsList ''contentDetails'' current_channel_id)
             (notify Info (FetchingPlaylist current_channel_id) w) of
        (Inl e, w1) \<Rightarrow> Some (Inl e, w1)
      | (Inr None, w1) \<Rightarrow>
          playlist_channels fuel api rest all_video_ids
            (notify Error (NoContentDetails current_channel_id) w1)
      | (Inr (Some response), w1) \<Rightarrow>
          (case has_channel_items response of
             Inl e \<Rightarrow> Some (Inl e, w1)
           | Inr False \<Rightarrow>
               playlist_channels fuel api rest all_video_ids
                 (notify Error (NoContentDetails current_channel_id) w1)
           | Inr True \<Rightarrow>
               (case path response [Key ''items'', Idx 0, Key ''contentDetails'',
                                    Key ''relatedPlaylists'', Key ''uploads''] of
                  Inl e \<Rightarrow> Some (Inl e, w1)
                | Inr playlist_Id \<Rightarrow>
                    (case playlist_pages fuel api playlist_Id JNull [] w1 of
                       None \<Rightarrow> None
                     | Some (Inl e, w2) \<Rightarrow> Some (Inl e, w2)
                     | Some (Inr videos_ids, w2) \<Rightarrow>
                         playlist_channels fuel api rest (all_video_ids @ videos_ids) w2))))"

definition playlist_videos_id_with ::
  "nat \<Rightarrow> api \<Rightarrow> string list \<Rightarrow> world \<Rightarrow> ((exn + json list) \<times> world) option" where
  "playlist_videos_id_with fuel api channel_ids w = playlist_channels fuel api channel_ids [] w"

definition playlist_videos_id ::
  "nat \<Rightarrow> remote \<Rightarrow> string list \<Rightarrow> world \<Rightarrow> ((exn + json list) \<times> world) option" where
  "playlist_videos_id fuel remote = playlist_videos_id_with fuel (call_site remote)"

section \<open>Batched video-detail fetch\<close>

text \<open>
  \<^verbatim>\<open>
  def videos_data(video_ids):
      st.subheader("Fetching Video Details")
      all_video_stats = []
      if not video_ids:
          st.warning("No video IDs provided to fetch data.")
          return pd.DataFrame()
      for i in range(0, len(video_ids), 50):
          batch_ids = video_ids[i:i+50]
          st.write(f"Fetching batch of video IDs: `{', '.join(batch_ids)}`")
          request = youtube.videos().list(part="snippet,contentDetails,statistics",
                                          id=','.join(batch_ids))
          response = safe_api_call(request.execute)
          if response and response.get("items"):
              for item in response["items"]:
                  snippet = item.get("snippet", {})
                  statistics = item.get("statistics", {})
                  contentDetails = item.get("contentDetails", {})
                  video_info = {
                      "Video_Id": item.get("id"),
                      "Video_title": snippet.get("title"),
                      "Video_Description": snippet.get("description"),
                      "channel_id": snippet.get("channelId"),
                      "video_tags": ', '.join(snippet.get("tags", [])),
                      "Video_pubdate": snippet.get("publishedAt"),
                      "Video_viewcount": int(statistics.get("viewCount", 0)),
                      "Video_likecount": int(statistics.get("likeCount", 0)),
                      "Video_favoritecount": int(statistics.get("favoriteCount", 0)),
                      "Video_commentcount": int(statistics.get("commentCount", 0)),
                      "Video_duration": iso8601_duration_to_seconds(contentDetails.get("duration", "PT0S")),
                      "Video_thumbnails": snippet.get("thumbnails", {}).get("default", {}).get("url"),
                      "Video_caption": contentDetails.get("caption", "false")
                  }
                  all_video_stats.append(video_info)
          else:
              st.warning(f"No data returned for video batch: {batch_ids}. ...")
      return pd.DataFrame(all_video_stats)
  \<close>
  The video ids handed in are strings.
\<close>

text \<open>\<^verbatim>\<open>re.match\<close> raises \<open>TypeError\<close> on what is not a string.\<close>

definition duration_of :: "json \<Rightarrow> exn + int" where
  "duration_of j = (case j of JStr s \<Rightarrow> iso8601_duration_to_seconds (ustr s) | _ \<Rightarrow> Inl TypeError)"

definition video_info :: "json \<Rightarrow> exn + row" where
  "video_info item =
     ebind (dict_get item ''snippet'' (JObj [])) (\<lambda>snippet.
     ebind (dict_get item ''statistics'' (JObj [])) (\<lambda>statistics.
     ebind (dict_get item ''contentDetails'' (JObj [])) (\<lambda>contentDetails.
     ebind (dict_get item ''id'' JNull) (\<lambda>vid.
     ebind (dict_get snippet ''title'' JNull) (\<lambda>title.
     ebind (dict_get snippet ''description'' JNull) (\<lambda>description.
     ebind (dict_get snippet ''channelId'' JNull) (\<lambda>channelId.
     ebind (ebind (dict_get snippet ''tags'' (JArr [])) py_join) (\<lambda>tags.
     ebind (dict_get snippet ''publishedAt'' JNull) (\<lambda>publishedAt.
     ebind (ebind (dict_get statistics ''viewCount'' (JNum 0)) py_int) (\<lambda>viewCount.
     ebind (ebind (dict_get statistics ''likeCount'' (JNum 0)) py_int) (\<lambda>likeCount.
     ebind (ebind (dict_get statistics ''favoriteCount'' (JNum 0)) py_int) (\<lambda>favoriteCount.
     ebind (ebind (dict_get statistics ''commentCount'' (JNum 0)) py_int) (\<lambda>commentCount.
     ebind (ebind (dict_get contentDetails ''duration'' (JStr ''PT0S'')) duration_of) (\<lambda>duration.
     ebind (ebind (ebind (dict_get snippet ''thumbnails'' (JObj []))
                         (\<lambda>t. dict_get t ''default'' (JObj [])))
                  (\<lambda>d. dict_get d ''url'' JNull)) (\<lambda>thumbnail.
     ebind (dict_get contentDetails ''caption'' (JStr ''false'')) (\<lambda>caption.
     Inr [(''Video_Id'', vid), (''Video_title'', title), (''Video_Description'', description),
          (''channel_id'', channelId), (''video_tags'', JStr tags),
          (''Video_pubdate'', publishedAt), (''Video_viewcount'', JNum viewCount),
          (''Video_likecount'', JNum likeCount), (''Video_favoritecount'', JNum favoriteCount),
          (''Video_commentcount'', JNum commentCount), (''Video_duration'', JNum duration),
          (''Video_thumbnails'', thumbnail), (''Video_caption'', caption)]))))))))))))))))"

text \<open>\<^verbatim>\<open>range(0, n, 50)\<close> and the slices \<^verbatim>\<open>video_ids[i:i+50]\<close> it selects.\<close>

definition batch_starts :: "nat \<Rightarrow> nat list" where
  "batch_starts n = map (\<lambda>j. 50 * j) [0..<(n + 49) div 50]"

definition batches :: "string list \<Rightarrow> string list list" where
  "batches video_ids = map (\<lambda>i. take 50 (drop i video_ids)) (batch_starts (length video_ids))"

text \<open>The records of one response, in the order of its items.\<close>

definition batch_records :: "json \<Rightarrow> exn + row list" where
  "batch_records response = ebind (ebind (getitem response ''items'') py_iter) (emap video_info)"

fun videos_batches ::
  "api \<Rightarrow> string list list \<Rightarrow> row list \<Rightarrow> world \<Rightarrow> (exn + row list) \<times> world" where
  "videos_batches api [] all_video_stats w = (Inr all_video_stats, w)"
| "videos_batches api (batch_ids # rest) all_video_stats w =
     (case api (VideosList batch_ids) (notify Write (FetchingBatch batch_ids) w) of
        (Inl e, w1) \<Rightarrow> (Inl e, w1)
      | (Inr None, w1) \<Rightarrow>
          videos_batches api rest all_video_stats (notify Warning (NoBatchData batch_ids) w1)
      | (Inr (Some response), w1) \<Rightarrow>
          (case has_items response of
             Inl e \<Rightarrow> (Inl e, w1)
           | Inr False \<Rightarrow>
               videos_batches api rest all_video_stats (notify Warning (NoBatchData batch_ids) w1)
           | Inr True \<Rightarrow>
               (case batch_records response of
                  Inl e \<Rightarrow> (Inl e, w1)
                | Inr infos \<Rightarrow> videos_batches api rest (all_video_stats @ infos) w1)))"

definition videos_data_with :: "api \<Rightarrow> string list \<Rightarrow> world \<Rightarrow> (exn + row list) \<times> world" where
  "videos_data_with api video_ids w =
     (if video_ids = [] then
        (Inr [], notify Warning NoVideoIds (notify Subheader FetchingVideoDetails w))
      else videos_batches api (batches video_ids) [] (notify Subheader FetchingVideoDetails w))"

definition videos_data :: "remote \<Rightarrow> string list \<Rightarrow> world \<Rightarrow> (exn + row list) \<times> world" where
  "videos_data remote = videos_data_with (call_site remote)"

section \<open>Per-video comment fetch\<close>

text \<open>
  \<^verbatim>\<open>
  def comments_inf(video_ids, current_channel_id_for_comments):
      commentdata = []
      if not video_ids:
          st.warning("No video IDs provided to fetch comments.")
          return pd.DataFrame()
      st.subheader(f"Fetching comments for {len(video_ids)} videos...")
      for video_id in video_ids:
          st.write(f"Fetching comments for video ID: `{video_id}`")
          nextpagetoken = None
          while True:
              request = youtube.commentThreads().list(part="snippet", videoId=video_id,
                                                      maxResults=50, pageToken=nextpagetoken)
              response = safe_api_call(request.execute)
              if response is None:
                  break
              if "error" in response and response["error"]["code"] == 403:
                  if any("commentsDisabled" in detail.get("reason", "")
                         for detail in response["error"].get("errors", [])):
                      st.warning(f"Comments are disabled for video ID: {video_id}. Skipping.")
                      break
                  else:
                      st.error(f"Unhandled 403 API error for video {video_id}: {response['error']}")
                      break
              if response.get("items"):
                  for item in response["items"]:
                      top_level_comment_snippet = item.get("snippet", {}).get("topLevelComment", {}).get("snippet", {})
                      comment = {
                          "comment_id": item.get("id"),
                          "Comment_Text": top_level_comment_snippet.get("textDisplay"),
                          "Comment_Authorname": top_level_comment_snippet.get("authorDisplayName"),
                          "published_date": top_level_comment_snippet.get("publishedAt"),
                          "video_id": top_level_comment_snippet.get("videoId"),
                          "channel_id": current_channel_id_for_comments
                      }
                      commentdata.append(comment)
                  nextpagetoken = response.get('nextPageToken')
                  if not nextpagetoken:
                      break
              else:
                  st.info(f"No more comments found for video ID: {video_id} or end of pages.")
                  break
      return pd.DataFrame(commentdata)
  \<close>
\<close>

text \<open>\<^verbatim>\<open>"error" in response and response["error"]["code"] == 403\<close>.\<close>

definition error_403 :: "json \<Rightarrow> exn + bool" where
  "error_403 response =
     ebind (str_in ''error'' response) (\<lambda>present.
       if present then
         ebind (path response [Key ''error'', Key ''code'']) (\<lambda>code. Inr (code = JNum 403))
       else Inr False)"

text \<open>\<^verbatim>\<open>any(...)\<close> over the details, left to right, stopping at the first that holds.\<close>

fun any_disabled :: "json list \<Rightarrow> exn + bool" where
  "any_disabled [] = Inr False"
| "any_disabled (detail # rest) =
     ebind (ebind (dict_get detail ''reason'' (JStr [])) (str_in ''commentsDisabled''))
       (\<lambda>found. if found then Inr True else any_disabled rest)"

definition comments_disabled :: "json \<Rightarrow> exn + bool" where
  "comments_disabled response =
     ebind (getitem response ''error'') (\<lambda>err.
     ebind (dict_get err ''errors'' (JArr [])) (\<lambda>errs.
     ebind (py_iter errs) any_disabled))"

definition comment_of :: "string \<Rightarrow> json \<Rightarrow> exn + row" where
  "comment_of current_channel_id_for_comments item =
     ebind (ebind (ebind (dict_get item ''snippet'' (JObj []))
                         (\<lambda>s. dict_get s ''topLevelComment'' (JObj [])))
                  (\<lambda>t. dict_get t ''snippet'' (JObj []))) (\<lambda>top.
     ebind (dict_get item ''id'' JNull) (\<lambda>cid.
     ebind (dict_get top ''textDisplay'' JNull) (\<lambda>textDisplay.
     ebind (dict_get top ''authorDisplayName'' JNull) (\<lambda>author.
     ebind (dict_get top ''publishedAt'' JNull) (\<lambda>publishedAt.
     ebind (dict_get top ''videoId'' JNull) (\<lambda>videoId.
     Inr [(''comment_id'', cid), (''Comment_Text'', textDisplay),
          (''Comment_Authorname'', author), (''published_date'', publishedAt),
          (''video_id'', videoId),
          (''channel_id'', JStr current_channel_id_for_comments)]))))))"

text \<open>
  The branch on \<^verbatim>\<open>response.get("items")\<close>: \<open>None\<close> when it is falsy, else the
  comments of the page and the value of \<^verbatim>\<open>response.get('nextPageToken')\<close>.
\<close>

definition page_comments :: "string \<Rightarrow> json \<Rightarrow> exn + (row list \<times> json) option" where
  "page_comments chan response =
     ebind (dict_get response ''items'' JNull) (\<lambda>items.
       if truthy items then
         ebind (ebind (getitem response ''items'') py_iter) (\<lambda>its.
         ebind (emap (comment_of chan) its) (\<lambda>comments.
         ebind (dict_get response ''nextPageToken'' JNull) (\<lambda>tok.
         Inr (Some (comments, tok)))))
       else Inr None)"

text \<open>
  The \<^verbatim>\<open>while True\<close> loop of one video, with its rounds counted down from \<open>fuel\<close>.
  \<^verbatim>\<open>response is None\<close> holds for a body \<^verbatim>\<open>null\<close> as well.
\<close>

fun comment_pages ::
  "nat \<Rightarrow> api \<Rightarrow> string \<Rightarrow> string \<Rightarrow> json \<Rightarrow> row list \<Rightarrow> world \<Rightarrow> ((exn + row list) \<times> world) option" where
  "comment_pages 0 api chan video_id nextpagetoken commentdata w = None"
| "comment_pages (Suc fuel) api chan video_id nextpagetoken commentdata w =
     (case api (CommentThreadsList video_id nextpagetoken) w of
        (Inl e, w1) \<Rightarrow> Some (Inl e, w1)
      | (Inr None, w1) \<Rightarrow> Some (Inr commentdata, w1)
      | (Inr (Some response), w1) \<Rightarrow>
          if response = JNull then Some (Inr commentdata, w1)
          else
            (case error_403 response of
               Inl e \<Rightarrow> Some (Inl e, w1)
             | Inr True \<Rightarrow>
                 (case comments_disabled response of
                    Inl e \<Rightarrow> Some (Inl e, w1)
                  | Inr True \<Rightarrow>
                      Some (Inr commentdata, notify Warning (CommentsDisabled video_id) w1)
                  | Inr False \<Rightarrow>
                      Some (Inr commentdata,
                            notify Error (Unhandled403 video_id
                                            (case getitem response ''error'' of
                                               Inr err \<Rightarrow> err | Inl e \<Rightarrow> JNull)) w1))
             | Inr False \<Rightarrow>
                 (case page_comments chan response of
                    Inl e \<Rightarrow> Some (Inl e, w1)
                  | Inr None \<Rightarrow> Some (Inr commentdata, notify Info (NoMoreComments video_id) w1)
                  | Inr (Some (comments, tok)) \<Rightarrow>
                      if truthy tok then
                        comment_pages fuel api chan video_id tok (commentdata @ comments) w1
                      else Some (Inr (commentdata @ comments), w1))))"

fun comments_videos ::
  "nat \<Rightarrow> api \<Rightarrow> string \<Rightarrow> string list \<Rightarrow> row list \<Rightarrow> world \<Rightarrow> ((exn + row list) \<times> world) option" where
  "comments_videos fuel api chan [] commentdata w = Some (Inr commentdata, w)"
| "comments_videos fuel api chan (video_id # rest) commentdata w =
     (case comment_pages fuel api chan video_id JNull commentdata
             (notify Write (FetchingCommentsFor video_id) w) of
        None \<Rightarrow> None
      | Some (Inl e, w1) \<Rightarrow> Some (Inl e, w1)
      | Some (Inr commentdata1, w1) \<Rightarrow> comments_videos fuel api chan rest commentdata1 w1)"

definition comments_inf_with ::
  "nat \<Rightarrow> api \<Rightarrow> string list \<Rightarrow> string \<Rightarrow> world \<Rightarrow> ((exn + row list) \<times> world) option" where
  "comments_inf_with fuel api video_ids current_channel_id_for_comments w =
     (if video_ids = [] then Some (Inr [], notify Warning NoVideoIdsForComments w)
      else comments_videos fuel api current_channel_id_for_comments video_ids []
             (notify Subheader (FetchingComments (length video_ids)) w))"

definition comments_inf ::
  "nat \<Rightarrow> remote \<Rightarrow> string list \<Rightarrow> string \<Rightarrow> world \<Rightarrow> ((exn + row list) \<times> world) option" where
  "comments_inf fuel remote = comments_inf_with fuel (call_site remote)"

section \<open>The local store\<close>

text \<open>
  The store is SQLite, reached through \<^verbatim>\<open>sqlite3\<close> and \<^verbatim>\<open>DataFrame.to_sql\<close>.
  Neither is code of the repository; what the functions below rely on is modelled here. A
  schema is the column list of a \<^verbatim>\<open>CREATE TABLE\<close> statement.
\<close>

datatype coltype = TEXT | INTEGER

record column =
  col_name :: string
  col_type :: coltype
  primary_key :: bool

type_synonym schema = "column list"

definition col :: "string \<Rightarrow> coltype \<Rightarrow> column" where
  "col name ty = \<lparr>col_name = name, col_type = ty, primary_key = False\<rparr>"

definition key_col :: "string \<Rightarrow> coltype \<Rightarrow> column" where
  "key_col name ty = \<lparr>col_name = name, col_type = ty, primary_key = True\<rparr>"

text \<open>The statements of \<^verbatim>\<open>Stream.py\<close> (lines 41--77, repeated at 132--141, 254--270, 349--358).\<close>

definition videos_ddl :: schema where
  "videos_ddl =
     [key_col ''Video_Id'' TEXT, col ''Video_title'' TEXT, col ''Video_Description'' TEXT,
      col ''channel_id'' TEXT, col ''video_tags'' TEXT, col ''Video_pubdate'' TEXT,
      col ''Video_viewcount'' INTEGER, col ''Video_likecount'' INTEGER,
      col ''Video_favoritecount'' INTEGER, col ''Video_commentcount'' INTEGER,
      col ''Video_duration'' INTEGER, col ''Video_thumbnails'' TEXT, col ''Video_caption'' TEXT]"

definition channels_ddl :: schema where
  "channels_ddl =
     [col ''channel_name'' TEXT, key_col ''channel_id'' TEXT, col ''channel_des'' TEXT,
      col ''channel_playid'' TEXT, col ''channel_viewcount'' INTEGER,
      col ''channel_subcount'' INTEGER]"

definition comments_ddl :: schema where
  "comments_ddl =
     [key_col ''comment_id'' TEXT, col ''Comment_Text'' TEXT, col ''Comment_Authorname'' TEXT,
      col ''published_date'' TEXT, col ''video_id'' TEXT, col ''channel_id'' TEXT]"




text \<open>A table keeps its schema and the records inserted, in order; a database maps names to tables.\<close>

record table =
  tbl_schema :: schema
  tbl_rows :: "row list"

type_synonym db = "string \<Rightarrow> table option"

text \<open>\<^verbatim>\<open>CREATE TABLE IF NOT EXISTS\<close>: nothing happens when the name is taken.\<close>

definition create_table_if_not_exists :: "string \<Rightarrow> schema \<Rightarrow> db \<Rightarrow> db" where
  "create_table_if_not_exists name sch d =
     (case d name of
        None \<Rightarrow> d(name \<mapsto> \<lparr>tbl_schema = sch, tbl_rows = []\<rparr>)
      | Some t \<Rightarrow> d)"


definition startup_ddl :: "db \<Rightarrow> db" where
  "startup_ddl d =
     create_table_if_not_exists ''comments'' comments_ddl
       (create_table_if_not_exists ''channels'' channels_ddl
         (create_table_if_not_exists ''videos'' videos_ddl d))"

text \<open>SQLite matches column names without regard to the case of ASCII letters.\<close>

definition lower_char :: "char \<Rightarrow> char" where
  "lower_char c =
     (case map_of (zip ''ABCDEFGHIJKLMNOPQRSTUVWXYZ'' ''abcdefghijklmnopqrstuvwxyz'') c of
        None \<Rightarrow> c
      | Some l \<Rightarrow> l)"

definition same_name :: "string \<Rightarrow> string \<Rightarrow> bool" where
  "same_name a b = (map lower_char a = map lower_char b)"

text \<open>The cell a record gives for a column of the table: \<open>NULL\<close> when it has none.\<close>

definition cell_of :: "row \<Rightarrow> string \<Rightarrow> json" where
  "cell_of r name =
     (case find (\<lambda>kv. same_name (fst kv) name) r of None \<Rightarrow> JNull | Some kv \<Rightarrow> snd kv)"

text \<open>The decimal writing of an integer.\<close>

function digits_of :: "nat \<Rightarrow> string" where
  "digits_of n =
     (if n < 10 then [''0123456789'' ! n]
      else digits_of (n div 10) @ [''0123456789'' ! (n mod 10)])"
  by pat_completeness auto
termination
  by (relation "measure (\<lambda>n. n)") auto

declare digits_of.simps [simp del]

definition show_int :: "int \<Rightarrow> string" where
  "show_int n = (if n < 0 then CHR ''-'' # digits_of (nat (- n)) else digits_of (nat n))"

text \<open>
  What a column keeps of the value bound to it, as far as the comparison of keys needs it:
  a \<^verbatim>\<open>TEXT\<close> column turns a number into its text, and \<^verbatim>\<open>sqlite3\<close> binds
  \<^verbatim>\<open>True\<close> and \<^verbatim>\<open>False\<close> as 1 and 0. The conversion of a text that reads as a
  number in an \<^verbatim>\<open>INTEGER\<close> column is left out; no key column is of that type.
\<close>

fun stored :: "coltype \<Rightarrow> json \<Rightarrow> json" where
  "stored TEXT (JNum n) = JStr (show_int n)"
| "stored TEXT (JBool b) = JStr (if b then ''1'' else ''0'')"
| "stored INTEGER (JBool b) = JNum (if b then 1 else 0)"
| "stored ty j = j"

text \<open>
  The value kept under the primary-key column; \<open>NULL\<close> when the schema declares no
  primary key.
\<close>

definition key_of :: "schema \<Rightarrow> row \<Rightarrow> json" where
  "key_of sch r =
     (case find primary_key sch of
        None \<Rightarrow> JNull
      | Some c \<Rightarrow> stored (col_type c) (cell_of r (col_name c)))"

fun scalar :: "json \<Rightarrow> bool" where
  "scalar (JArr xs) = False"
| "scalar (JObj kvs) = False"
| "scalar j = True"

text \<open>
  One \<^verbatim>\<open>INSERT\<close> naming the columns of the record. It fails when the table lacks one of
  them (\<^verbatim>\<open>OperationalError\<close>), when a cell is a list or a dict, which cannot be bound
  (\<^verbatim>\<open>ProgrammingError\<close>), and when the key is not \<open>NULL\<close> and a row of the table has
  it already (\<^verbatim>\<open>IntegrityError\<close>). The table keeps the record as it was given.
\<close>

definition insert_row :: "table \<Rightarrow> row \<Rightarrow> exn + table" where
  "insert_row t r =
     (if list_ex (\<lambda>kv. \<not> list_ex (\<lambda>c. same_name (fst kv) (col_name c)) (tbl_schema t)) r
        then Inl (OperationalError ''no such column'')
      else if list_ex (\<lambda>kv. \<not> scalar (snd kv)) r then Inl ProgrammingError
      else if key_of (tbl_schema t) r \<noteq> JNull
              \<and> key_of (tbl_schema t) r \<in> set (map (key_of (tbl_schema t)) (tbl_rows t))
        then Inl IntegrityError
      else Inr (t\<lparr>tbl_rows := tbl_rows t @ [r]\<rparr>))"

text \<open>
  \<^verbatim>\<open>df.to_sql(name, conn, if_exists='append', index=False)\<close> on a table that exists: the
  records are inserted in order inside one transaction, which is rolled back when an insert
  fails, so a failure leaves the table as it was. The exception handed on is the one
  \<^verbatim>\<open>sqlite3\<close> raised. Under a release of pandas that wraps it in an exception of its
  own, a handler that catches \<^verbatim>\<open>Exception\<close> reports another text at the same level,
  and a handler written for \<^verbatim>\<open>sqlite3.IntegrityError\<close> does not apply.
\<close>

fun to_sql :: "table \<Rightarrow> row list \<Rightarrow> exn + table" where
  "to_sql t [] = Inr t"
| "to_sql t (r # rs) = ebind (insert_row t r) (\<lambda>t1. to_sql t1 rs)"

section \<open>Insert operations\<close>

text \<open>
  \<^verbatim>\<open>
  def insert_videos_into_sqlite(df1):
      conn = sqlite3.connect('db1.db')
      cursor = conn.cursor()
      cursor.execute('''CREATE TABLE IF NOT EXISTS videos (...)''')
      conn.commit()
      if not df1.empty:
          try:
              df1.to_sql('videos', conn, if_exists='append', index=False)
              st.success(f"Successfully inserted {len(df1)} video records into 'videos' table!")
          except Exception as e:
              st.error(f"Error inserting video data: {e}")
              # You might want more granular error handling here for specific SQLite errors
      else:
          st.warning("No video data to insert.")
      conn.close()
  \<close>
  \<^verbatim>\<open>insert_comments_into_sqlite\<close> (lines 346--369) is the same on \<^verbatim>\<open>comments\<close>.
\<close>

definition insert_videos_into_sqlite :: "row list \<Rightarrow> db \<Rightarrow> world \<Rightarrow> db \<times> world" where
  "insert_videos_into_sqlite df1 d w =
     (let d1 = create_table_if_not_exists ''videos'' videos_ddl d in
      if df1 \<noteq> [] then
        (case d1 ''videos'' of
           None \<Rightarrow> (d1, w)
         | Some t \<Rightarrow>
             (case to_sql t df1 of
                Inr t1 \<Rightarrow> (d1(''videos'' \<mapsto> t1), notify Success (VideosInserted (length df1)) w)
              | Inl e \<Rightarrow> (d1, notify Error (VideoInsertError e) w)))
      else (d1, notify Warning NoVideoData w))"

definition insert_comments_into_sqlite :: "row list \<Rightarrow> db \<Rightarrow> world \<Rightarrow> db \<times> world" where
  "insert_comments_into_sqlite df2 d w =
     (let d1 = create_table_if_not_exists ''comments'' comments_ddl d in
      if df2 \<noteq> [] then
        (case d1 ''comments'' of
           None \<Rightarrow> (d1, w)
         | Some t \<Rightarrow>
             (case to_sql t df2 of
                Inr t1 \<Rightarrow> (d1(''comments'' \<mapsto> t1), notify Success (CommentsInserted (length df2)) w)
              | Inl e \<Rightarrow> (d1, notify Error (CommentInsertError e) w)))
      else (d1, notify Warning NoCommentData w))"

text \<open>
  \<^verbatim>\<open>
  def eachchanneldetails(channel_ids):
      conn = sqlite3.connect('db1.db')
      cursor = conn.cursor()
      cursor.execute('''CREATE TABLE IF NOT EXISTS channels (...)''')
      conn.commit()
      for channel_id in channel_ids:
          df = channel_info(channel_id)
          if not df.empty:
              try:
                  df.to_sql('channels', conn, if_exists='append', index=False)
                  st.success(f"Channel '{df['Channel_Name'].iloc[0]}' data inserted.")
              except sqlite3.IntegrityError:
                  st.info(f"Channel '{df['Channel_Name'].iloc[0]}' (ID: {channel_id}) already exists. Skipping insertion.")
              except Exception as e:
                  st.error(f"Error inserting channel {channel_id} data: {e}")
          else:
              st.warning(f"Could not fetch data for channel ID: {channel_id}")
      conn.close()
  \<close>
\<close>

text \<open>\<^verbatim>\<open>df['Channel_Name'].iloc[0]\<close>, for a frame built by \<open>channel_info\<close>.\<close>

definition channel_name :: "row list \<Rightarrow> json" where
  "channel_name df =
     (case df of
        [] \<Rightarrow> JNull
      | r # rs \<Rightarrow> (case map_of r ''Channel_Name'' of None \<Rightarrow> JNull | Some v \<Rightarrow> v))"

text \<open>The body of the loop after \<^verbatim>\<open>df = channel_info(channel_id)\<close>.\<close>

definition store_channel :: "string \<Rightarrow> row list \<Rightarrow> db \<Rightarrow> world \<Rightarrow> db \<times> world" where
  "store_channel channel_id df d w =
     (if df \<noteq> [] then
        (case d ''channels'' of
           None \<Rightarrow> (d, w)
         | Some t \<Rightarrow>
             (case to_sql t df of
                Inr t1 \<Rightarrow> (d(''channels'' \<mapsto> t1), notify Success (ChannelInserted (channel_name df)) w)
              | Inl IntegrityError \<Rightarrow>
                  (d, notify Info (ChannelExists (channel_name df) channel_id) w)
              | Inl e \<Rightarrow> (d, notify Error (ChannelInsertError channel_id e) w)))
      else (d, notify Warning (ChannelNotFetched channel_id) w))"

fun channels_loop :: "api \<Rightarrow> string list \<Rightarrow> db \<Rightarrow> world \<Rightarrow> (exn + unit) \<times> db \<times> world" where
  "channels_loop api [] d w = (Inr (), d, w)"
| "channels_loop api (channel_id # rest) d w =
     (case channel_info_with api channel_id w of
        (Inl e, w1) \<Rightarrow> (Inl e, d, w1)
      | (Inr df, w1) \<Rightarrow>
          (case store_channel channel_id df d w1 of
             (d2, w2) \<Rightarrow> channels_loop api rest d2 w2))"

definition eachchanneldetails_with ::
  "api \<Rightarrow> string list \<Rightarrow> db \<Rightarrow> world \<Rightarrow> (exn + unit) \<times> db \<times> world" where
  "eachchanneldetails_with api channel_ids d w =
     channels_loop api channel_ids (create_table_if_not_exists ''channels'' channels_ddl d) w"

definition eachchanneldetails ::
  "remote \<Rightarrow> string list \<Rightarrow> db \<Rightarrow> world \<Rightarrow> (exn + unit) \<times> db \<times> world" where
  "eachchanneldetails remote = eachchanneldetails_with (call_site remote)"

text \<open>
  The handler of the button "Fetch & Store Video Data", from the point where the video ids
  are known (\<^verbatim>\<open>main\<close>, lines 447--456):
  \<^verbatim>\<open>
  if video_ids:
      st.info(f"Found {len(video_ids)} video IDs. Now fetching detailed video data...")
      with st.spinner("Fetching detailed video data and inserting into DB..."):
          videos_df_to_insert = videos_data(video_ids)
          if not videos_df_to_insert.empty:
              insert_videos_into_sqlite(videos_df_to_insert)
          else:
              st.warning("No video data could be fetched for insertion.")
  else:
      st.warning("No video IDs found for this channel or API error occurred.")
  \<close>
\<close>

definition main_video_data_with ::
  "api \<Rightarrow> string list \<Rightarrow> db \<Rightarrow> world \<Rightarrow> (exn + unit) \<times> db \<times> world" where
  "main_video_data_with api video_ids d w =
     (if video_ids \<noteq> [] then
        (case videos_data_with api video_ids (notify Info (FoundVideoIds (length video_ids)) w) of
           (Inl e, w1) \<Rightarrow> (Inl e, d, w1)
         | (Inr videos_df_to_insert, w1) \<Rightarrow>
             if videos_df_to_insert \<noteq> [] then
               (case insert_videos_into_sqlite videos_df_to_insert d w1 of
                  (d2, w2) \<Rightarrow> (Inr (), d2, w2))
             else (Inr (), d, notify Warning NoVideoFetched w1))
      else (Inr (), d, notify Warning NoVideoIdsFound w))"

definition main_video_data ::
  "remote \<Rightarrow> string list \<Rightarrow> db \<Rightarrow> world \<Rightarrow> (exn + unit) \<times> db \<times> world" where
  "main_video_data remote = main_video_data_with (call_site remote)"

text \<open>The keys a table holds, \<open>NULL\<close> left out: a primary key keeps them distinct.\<close>

definition keys :: "table \<Rightarrow> json list" where
  "keys t = filter (\<lambda>k. k \<noteq> JNull) (map (key_of (tbl_schema t)) (tbl_rows t))"

text \<open>The levels of the notifications of a trace, in order.\<close>

fun levels :: "event list \<Rightarrow> level list" where
  "levels [] = []"
| "levels (Notify l m # evs) = l # levels evs"
| "levels (ev # evs) = levels evs"

section \<open>Concrete platforms and inputs\<close>

definition world0 :: world where
  "world0 = \<lparr>http_log = [], trace = []\<rparr>"

definition db0 :: db where
  "db0 = (\<lambda>name. None)"

text \<open>
  A channel whose uploads playlist has three pages: the first holds two videos, the
  request for the second is answered 404, the third would hold one more video.
\<close>

definition playlist_page :: "string list \<Rightarrow> json \<Rightarrow> json" where
  "playlist_page ids tok =
     JObj [(''items'',
            JArr (map (\<lambda>v. JObj [(''snippet'',
                                    JObj [(''resourceId'', JObj [(''videoId'', JStr v)])])]) ids)),
           (''nextPageToken'', tok)]"

definition remote_three_pages :: remote where
  "remote_three_pages n req =
     (case req of
        ChannelsList part cid \<Rightarrow>
          Inr (JObj [(''items'',
                      JArr [JObj [(''contentDetails'',
                                   JObj [(''relatedPlaylists'',
                                          JObj [(''uploads'', JStr ''UU1'')])])]])])
      | PlaylistItemsList pl tok \<Rightarrow>
          if tok = JNull then Inr (playlist_page [''v1'', ''v2''] (JStr ''t2''))
          else if tok = JStr ''t2'' then Inl (HttpError 404 ''playlistItemsNotFound'')
          else Inr (playlist_page [''v5''] JNull)
      | _ \<Rightarrow> Inl (HttpError 400 ''badRequest''))"

text \<open>123 distinct video ids, and two platforms for the video-detail endpoint.\<close>

definition ids123 :: "string list" where
  "ids123 = map (\<lambda>n. replicate (Suc n) (CHR ''v'')) [0..<123]"

definition remote_videos :: remote where
  "remote_videos n req =
     (case req of
        VideosList ids \<Rightarrow> Inr (JObj [(''items'', JArr (map (\<lambda>v. JObj [(''id'', JStr v)]) ids))])
      | _ \<Rightarrow> Inl (HttpError 400 ''badRequest''))"

definition remote_gone :: remote where
  "remote_gone n req = Inl (HttpError 404 ''notFound'')"

fun request_size :: "request \<Rightarrow> nat" where
  "request_size (VideosList ids) = length ids"
| "request_size req = 1"

text \<open>A channel response whose statistics hide the subscriber count.\<close>

definition hidden_subscribers :: json where
  "hidden_subscribers =
     JObj [(''items'',
            JArr [JObj [(''id'', JStr ''UC1''),
                        (''snippet'', JObj [(''title'', JStr ''A channel''),
                                            (''description'', JStr '''')]),
                        (''contentDetails'',
                         JObj [(''relatedPlaylists'', JObj [(''uploads'', JStr ''UU1'')])]),
                        (''statistics'',
                         JObj [(''viewCount'', JStr ''1000''),
                               (''hiddenSubscriberCount'', JBool True)])]])]"

definition remote_hidden :: remote where
  "remote_hidden n req = Inr hidden_subscribers"

text \<open>A page of comment threads that holds one comment and names no further page.\<close>

definition one_comment :: json where
  "one_comment =
     JObj [(''items'',
            JArr [JObj [(''id'', JStr ''c1''),
                        (''snippet'',
                         JObj [(''topLevelComment'',
                                JObj [(''snippet'',
                                       JObj [(''textDisplay'', JStr ''hello''),
                                             (''videoId'', JStr ''v2'')])])])]])]"

text \<open>
  A channel response with all the fields \<open>channel_info\<close> reads, the record built from it,
  and a store whose \<^verbatim>\<open>channels\<close> table holds that record already.
\<close>

definition channel_payload :: json where
  "channel_payload =
     JObj [(''items'',
            JArr [JObj [(''id'', JStr ''UC1''),
                        (''snippet'', JObj [(''title'', JStr ''A channel''),
                                            (''description'', JStr ''about'')]),
                        (''contentDetails'',
                         JObj [(''relatedPlaylists'', JObj [(''uploads'', JStr ''UU1'')])]),
                        (''statistics'',
                         JObj [(''viewCount'', JStr ''1000''),
                               (''subscriberCount'', JStr ''10'')])]])]"

definition remote_channel :: remote where
  "remote_channel n req = Inr channel_payload"

definition channel_row :: row where
  "channel_row =
     [(''Channel_Name'', JStr ''A channel''), (''Channel_Id'', JStr ''UC1''),
      (''Channel_Des'', JStr ''about''), (''Channel_playid'', JStr ''UU1''),
      (''channel_viewcount'', JStr ''1000''), (''channel_subcount'', JStr ''10'')]"

definition db_channel :: db where
  "db_channel = (startup_ddl db0)(''channels'' \<mapsto> \<lparr>tbl_schema = channels_ddl, tbl_rows = [channel_row]\<rparr>)"

text \<open>
  Comment threads as the platform signals them: the request for the first video is refused
  with status 403 and the reason \<^verbatim>\<open>commentsDisabled\<close>, the request for the third with
  status 403 and another reason; the second video has one comment.
\<close>

definition remote_disabled :: remote where
  "remote_disabled n req =
     (case req of
        CommentThreadsList v tok \<Rightarrow>
          if v = ''v1'' then Inl (HttpError 403 ''commentsDisabled'')
          else if v = ''v3'' then Inl (HttpError 403 ''forbidden'')
          else Inr one_comment
      | _ \<Rightarrow> Inl (HttpError 400 ''badRequest''))"

text \<open>
  Comment threads with the signal in the shape lines 312--319 look for: the first video has
  comments disabled, delivered as a payload that carries the error; the second has one
  comment; the third is answered with a server error.
\<close>

definition disabled_payload :: json where
  "disabled_payload =
     JObj [(''error'',
            JObj [(''code'', JNum 403),
                  (''errors'', JArr [JObj [(''reason'', JStr ''commentsDisabled'')]])])]"

definition remote_comments :: remote where
  "remote_comments n req =
     (case req of
        CommentThreadsList v tok \<Rightarrow>
          if v = ''v1'' then Inr disabled_payload
          else if v = ''v2'' then Inr one_comment
          else Inl (HttpError 500 ''backendError'')
      | _ \<Rightarrow> Inl (HttpError 400 ''badRequest''))"

text \<open>Records for the store.\<close>

definition video_a :: row where
  "video_a = [(''Video_Id'', JStr ''v1''), (''Video_title'', JStr ''first'')]"

definition video_b :: row where
  "video_b = [(''Video_Id'', JStr ''v2''), (''Video_title'', JStr ''second'')]"

definition video_odd :: row where
  "video_odd = [(''Video_Id'', JStr ''v3''), (''Video_length'', JNum 3)]"

definition comment_a :: row where
  "comment_a = [(''comment_id'', JStr ''c1''), (''Comment_Text'', JStr ''hello'')]"

definition comment_b :: row where
  "comment_b = [(''comment_id'', JStr ''c2''), (''Comment_Text'', JStr ''again'')]"

text \<open>A store that holds one video and one comment.\<close>

definition db_one :: db where
  "db_one =
     (startup_ddl db0)
       (''videos'' \<mapsto> \<lparr>tbl_schema = videos_ddl, tbl_rows = [video_a]\<rparr>,
        ''comments'' \<mapsto> \<lparr>tbl_schema = comments_ddl, tbl_rows = [comment_a]\<rparr>)"

text \<open>The record of a video whose item holds nothing but its id.\<close>

definition bare_video_row :: "string \<Rightarrow> row" where
  "bare_video_row v =
     [(''Video_Id'', JStr v), (''Video_title'', JNull), (''Video_Description'', JNull),
      (''channel_id'', JNull), (''video_tags'', JStr []), (''Video_pubdate'', JNull),
      (''Video_viewcount'', JNum 0), (''Video_likecount'', JNum 0),
      (''Video_favoritecount'', JNum 0), (''Video_commentcount'', JNum 0),
      (''Video_duration'', JNum 0), (''Video_thumbnails'', JNull),
      (''Video_caption'', JStr ''false'')]"

text \<open>A video of more than a day, as the platform writes its duration.\<close>

definition long_video :: json where
  "long_video =
     JObj [(''id'', JStr ''v1''),
           (''contentDetails'', JObj [(''duration'', JStr ''P1DT2H3M4S'')])]"

definition remote_long :: remote where
  "remote_long n req = Inr (JObj [(''items'', JArr [long_video])])"

section \<open>Properties of digits and \<^verbatim>\<open>int\<close>\<close>

lemma find_in_set: "find P xs = Some x \<Longrightarrow> x \<in> set xs \<and> P x"
  by (induction xs) (auto split: if_splits)

lemma is_digit_iff: "is_digit c \<longleftrightarrow> (\<exists>z \<in> set digit_zeros. z \<le> c \<and> c < z + 10)"
proof (cases "find (\<lambda>z. z \<le> c \<and> c < z + 10) digit_zeros")
  case None
  then have "\<not> is_digit c" by (simp add: is_digit_def decimal_def)
  moreover from None have "\<not> (\<exists>z \<in> set digit_zeros. z \<le> c \<and> c < z + 10)"
    unfolding find_None_iff by blast
  ultimately show ?thesis by blast
next
  case (Some z)
  then have "is_digit c" by (simp add: is_digit_def decimal_def)
  moreover from find_in_set[OF Some] have "\<exists>z \<in> set digit_zeros. z \<le> c \<and> c < z + 10" by blast
  ultimately show ?thesis by blast
qed

lemma digit_val_nonneg: "0 \<le> digit_val c"
proof (cases "find (\<lambda>z. z \<le> c \<and> c < z + 10) digit_zeros")
  case None
  then show ?thesis by (simp add: digit_val_def decimal_def)
next
  case (Some z)
  with find_in_set[OF Some] show ?thesis by (simp add: digit_val_def decimal_def)
qed

lemma foldl_digits_nonneg:
  "0 \<le> a \<Longrightarrow> 0 \<le> foldl (\<lambda>a c. 10 * a + digit_val c) a ds"
  by (induction ds arbitrary: a) (auto simp: digit_val_nonneg)

lemma int_of_digits_nonneg: "0 \<le> int_of_digits ds"
  by (simp add: int_of_digits_def foldl_digits_nonneg)

lemma markers:
  "\<not> is_digit (code_point (CHR ''H''))" "\<not> is_digit (code_point (CHR ''M''))"
  "\<not> is_digit (code_point (CHR ''S''))" "\<not> is_digit (code_point (CHR ''T''))"
  "\<not> is_digit 0x0A" "\<not> is_digit 0x5F" "\<not> is_digit 0x2D" "\<not> is_digit 0x2B"
  by code_simp+

lemma spaces_no_digits: "list_all (\<lambda>c. \<not> is_digit c) spaces"
  by code_simp

lemma space_not_digit: "is_space c \<Longrightarrow> \<not> is_digit c"
  using spaces_no_digits unfolding is_space_def list_all_iff by blast

lemma strip_digits: "digit_run ds \<Longrightarrow> strip ds = ds"
proof -
  assume d: "digit_run ds"
  then have n: "ds \<noteq> []" and "is_digit (hd ds)" "is_digit (last ds)"
    by (auto simp: digit_run_def list_all_iff)
  then have a: "\<not> is_space (hd ds)" "\<not> is_space (last ds)"
    using space_not_digit by blast+
  from n a(1) have "dropWhile is_space ds = ds" by (cases ds) auto
  moreover have "dropWhile is_space (rev ds) = rev ds"
    using n a(2) by (cases "rev ds") (auto simp: hd_rev)
  ultimately show ?thesis by (simp add: strip_def)
qed

lemma literal_digits_run: "digit_run ds \<Longrightarrow> literal_digits ds = Some ds"
proof (induction ds rule: literal_digits.induct)
  case 1
  then show ?case by (simp add: digit_run_def)
next
  case (2 c)
  then show ?case by (simp add: digit_run_def)
next
  case (3 c d rest)
  from 3(2) have c: "is_digit c" and d: "is_digit d" and r: "digit_run (d # rest)"
    by (auto simp: digit_run_def)
  from d markers(6) have "d \<noteq> 0x5F" by auto
  with 3(1) c r show ?case by simp
qed

text \<open>\<^verbatim>\<open>int\<close> on a run of digits: the number it writes, unless the run is too long.\<close>

lemma py_int_str_digits:
  assumes "digit_run ds"
  shows "py_int_str ds =
           (if int_max_str_digits < length ds then Inl ValueError else Inr (int_of_digits ds))"
proof -
  from assms have "is_digit (hd ds)" "ds \<noteq> []" by (auto simp: digit_run_def list_all_iff)
  with markers(7,8) have "hd ds \<noteq> 0x2D" "hd ds \<noteq> 0x2B" by auto
  then show ?thesis
    using assms by (simp add: py_int_str_def strip_digits literal_digits_run Let_def)
qed

section \<open>Properties of the duration codec\<close>

lemma opt_group_cases:
  assumes "opt_group u s = (g, r)"
  shows "(g = None \<and> r = s) \<or> (\<exists>ds. g = Some ds \<and> digit_run ds \<and> s = ds @ u # r)"
proof (cases "dropWhile is_digit s")
  case Nil
  with assms show ?thesis by (simp add: opt_group_def)
next
  case (Cons c rest)
  show ?thesis
  proof (cases "takeWhile is_digit s \<noteq> [] \<and> c = u")
    case True
    with assms Cons have g: "g = Some (takeWhile is_digit s)" and r: "r = rest"
      by (simp_all add: opt_group_def)
    have "s = takeWhile is_digit s @ dropWhile is_digit s" by simp
    with Cons True r have "s = takeWhile is_digit s @ u # r" by simp
    moreover have "list_all is_digit (takeWhile is_digit s)"
      by (auto simp: list_all_iff dest: set_takeWhileD)
    ultimately show ?thesis using g True by (auto simp: digit_run_def)
  next
    case False
    with assms Cons show ?thesis by (auto simp: opt_group_def)
  qed
qed

lemma takeWhile_run: "list_all is_digit ds \<Longrightarrow> \<not> is_digit c \<Longrightarrow> takeWhile is_digit (ds @ c # rest) = ds"
  by (induction ds) auto

lemma dropWhile_run: "list_all is_digit ds \<Longrightarrow> \<not> is_digit c \<Longrightarrow> dropWhile is_digit (ds @ c # rest) = c # rest"
  by (induction ds) auto

lemma opt_group_take:
  "digit_run ds \<Longrightarrow> \<not> is_digit u \<Longrightarrow> opt_group u (ds @ u # rest) = (Some ds, rest)"
  by (simp add: opt_group_def digit_run_def takeWhile_run dropWhile_run)

lemma opt_group_skip:
  "list_all is_digit ds \<Longrightarrow> \<not> is_digit c \<Longrightarrow> c \<noteq> u \<Longrightarrow> opt_group u (ds @ c # rest) = (None, ds @ c # rest)"
  by (simp add: opt_group_def takeWhile_run dropWhile_run)

lemma opt_group_skip0:
  "\<not> is_digit c \<Longrightarrow> c \<noteq> u \<Longrightarrow> opt_group u (c # rest) = (None, c # rest)"
  using opt_group_skip[of "[]" c u rest] by simp

lemma opt_group_Nil: "opt_group u [] = (None, [])"
  by (simp add: opt_group_def)

lemma marker_values:
  "code_point (CHR ''P'') = 0x50" "code_point (CHR ''T'') = 0x54" "code_point (CHR ''H'') = 0x48"
  "code_point (CHR ''M'') = 0x4D" "code_point (CHR ''S'') = 0x53"
  by (simp_all add: code_point_def)

lemma re_match_token:
  assumes "spec_count h" "spec_count m" "spec_count s" "e = [] \<or> e = [0x0A]"
  shows "re_match (spec_token h m s @ e) = Some (h, m, s)"
proof -
  note mk = markers(1,2,3,5)[unfolded marker_values]
  show ?thesis
    using assms
    by (cases h; cases m; cases s)
       (auto simp: re_match_def spec_token_def spec_component_def spec_count_def digit_run_def
          ustr_def marker_values opt_group_take opt_group_skip opt_group_skip0 opt_group_Nil mk)
qed

lemma group_int_count:
  "spec_count g \<Longrightarrow>
     group_int g = (if convertible g then Inr (spec_value g) else Inl ValueError)"
  by (cases g)
     (auto simp: group_int_def spec_value_def spec_count_def convertible_def py_int_str_digits
        digit_run_def)

lemma codec_token:
  assumes "spec_count h" "spec_count m" "spec_count s" "e = [] \<or> e = [0x0A]"
  shows "iso8601_duration_to_seconds (spec_token h m s @ e) =
           (if convertible h \<and> convertible m \<and> convertible s
            then Inr (spec_value h * 3600 + spec_value m * 60 + spec_value s)
            else Inl ValueError)"
  using assms(1,2,3) re_match_token[OF assms]
  by (simp add: iso8601_duration_to_seconds_def group_int_count ebind_def)

lemma re_match_sound:
  assumes "re_match tok = Some (h, m, s)"
  shows "spec_count h \<and> spec_count m \<and> spec_count s
         \<and> (tok = spec_token h m s \<or> tok = spec_token h m s @ [0x0A])"
proof -
  from assms obtain r0 where tok: "tok = code_point (CHR ''P'') # code_point (CHR ''T'') # r0"
    by (auto simp: re_match_def split: list.splits if_splits)
  obtain h' r1 where g1: "opt_group (code_point (CHR ''H'')) r0 = (h', r1)"
    by (cases "opt_group (code_point (CHR ''H'')) r0")
  obtain m' r2 where g2: "opt_group (code_point (CHR ''M'')) r1 = (m', r2)"
    by (cases "opt_group (code_point (CHR ''M'')) r1")
  obtain s' r3 where g3: "opt_group (code_point (CHR ''S'')) r2 = (s', r3)"
    by (cases "opt_group (code_point (CHR ''S'')) r2")
  from assms tok g1 g2 g3 have eq: "h = h'" "m = m'" "s = s'" and e: "r3 = [] \<or> r3 = [0x0A]"
    by (auto simp: re_match_def split: if_splits)
  have c1: "r0 = spec_component h (CHR ''H'') @ r1" "spec_count h"
    using opt_group_cases[OF g1] eq by (auto simp: spec_component_def spec_count_def)
  have c2: "r1 = spec_component m (CHR ''M'') @ r2" "spec_count m"
    using opt_group_cases[OF g2] eq by (auto simp: spec_component_def spec_count_def)
  have c3: "r2 = spec_component s (CHR ''S'') @ r3" "spec_count s"
    using opt_group_cases[OF g3] eq by (auto simp: spec_component_def spec_count_def)
  have "tok = spec_token h m s @ r3"
    using tok c1(1) c2(1) c3(1) by (simp add: spec_token_def ustr_def)
  with e c1(2) c2(2) c3(2) show ?thesis by auto
qed

lemma spec_value_nonneg: "0 \<le> spec_value g"
  by (simp add: spec_value_def int_of_digits_nonneg split: option.splits)

lemma codec_result:
  "iso8601_duration_to_seconds tok = Inl ValueError
   \<or> (\<exists>n. 0 \<le> n \<and> iso8601_duration_to_seconds tok = Inr n)"
proof (cases "re_match tok")
  case None
  then show ?thesis by (simp add: iso8601_duration_to_seconds_def)
next
  case (Some gs)
  obtain h m s where gs: "gs = (h, m, s)" by (cases gs) auto
  with Some re_match_sound[of tok h m s]
  have c: "spec_count h" "spec_count m" "spec_count s"
    and t: "tok = spec_token h m s @ [] \<or> tok = spec_token h m s @ [0x0A]" by auto
  have "0 \<le> spec_value h * 3600 + spec_value m * 60 + spec_value s"
    using spec_value_nonneg[of h] spec_value_nonneg[of m] spec_value_nonneg[of s] by simp
  with t codec_token[OF c, of "[]"] codec_token[OF c, of "[0x0A]"] show ?thesis
    by (cases "convertible h \<and> convertible m \<and> convertible s") auto
qed

lemma codec_zero_outside:
  assumes "\<not> spec_grammar tok" "\<not> (\<exists>t. spec_grammar t \<and> tok = t @ [0x0A])"
  shows "iso8601_duration_to_seconds tok = Inr 0"
proof (cases "re_match tok")
  case None
  then show ?thesis by (simp add: iso8601_duration_to_seconds_def)
next
  case (Some gs)
  obtain h m s where "gs = (h, m, s)" by (cases gs) auto
  with Some re_match_sound[of tok h m s]
  have c: "spec_count h" "spec_count m" "spec_count s"
    and t: "tok = spec_token h m s \<or> tok = spec_token h m s @ [0x0A]" by auto
  from c have "spec_grammar (spec_token h m s)" unfolding spec_grammar_def by blast
  with t assms show ?thesis by blast
qed

lemma spec_grammar_chars:
  "spec_grammar tok \<Longrightarrow> c \<in> set tok \<Longrightarrow> is_digit c \<or> c \<in> set (ustr ''PTHMS'')"
  by (auto simp: spec_grammar_def spec_token_def spec_component_def spec_count_def
        digit_run_def list_all_iff ustr_def split: option.splits)

lemma nines: "digit_run (replicate (Suc n) 0x39)"
proof -
  have "is_digit 0x39" by code_simp
  then show ?thesis by (simp add: digit_run_def list_all_iff)
qed

text \<open>
  Claim C7, as the code has it. For every input string the codec returns a non-negative
  integer or raises \<open>ValueError\<close>; no other exception leaves it. A token of the grammar,
  and the same token followed by one newline, which \<^verbatim>\<open>$\<close> lets through, decodes to
  \<open>hours * 3600 + minutes * 60 + seconds\<close>, a component left out counting as 0, when each
  of its digit runs has at most 4300 digits, so that \<^verbatim>\<open>int\<close> converts it; with a longer
  run the codec raises \<open>ValueError\<close>. \<^verbatim>\<open>"PT0S"\<close> gives 0, and every other string gives 0.
\<close>

theorem duration_codec:
  "(iso8601_duration_to_seconds tok = Inl ValueError
      \<or> (\<exists>n. 0 \<le> n \<and> iso8601_duration_to_seconds tok = Inr n))
   \<and> (spec_count h \<and> spec_count m \<and> spec_count s \<and> (e = [] \<or> e = [0x0A]) \<longrightarrow>
        iso8601_duration_to_seconds (spec_token h m s @ e) =
          (if convertible h \<and> convertible m \<and> convertible s
           then Inr (spec_value h * 3600 + spec_value m * 60 + spec_value s)
           else Inl ValueError))
   \<and> iso8601_duration_to_seconds (ustr ''PT0S'') = Inr 0
   \<and> (\<not> spec_grammar tok \<and> \<not> (\<exists>t. spec_grammar t \<and> tok = t @ [0x0A]) \<longrightarrow>
        iso8601_duration_to_seconds tok = Inr 0)"
proof -
  have "iso8601_duration_to_seconds (ustr ''PT0S'') = Inr 0" by code_simp
  moreover have "spec_count h \<and> spec_count m \<and> spec_count s \<and> (e = [] \<or> e = [0x0A]) \<longrightarrow>
        iso8601_duration_to_seconds (spec_token h m s @ e) =
          (if convertible h \<and> convertible m \<and> convertible s
           then Inr (spec_value h * 3600 + spec_value m * 60 + spec_value s)
           else Inl ValueError)"
    using codec_token[of h m s e] by blast
  ultimately show ?thesis
    using codec_result[of tok] codec_zero_outside[of tok] by blast
qed

theorem duration_codec_witness:
  "iso8601_duration_to_seconds (ustr ''PT1H02M'') = Inr 3720
   \<and> iso8601_duration_to_seconds (ustr ''PT1H02M'' @ [0x0A]) = Inr 3720
   \<and> iso8601_duration_to_seconds [0x50, 0x54, 0x663, 0x53] = Inr 3
   \<and> iso8601_duration_to_seconds (ustr ''PT'' @ replicate 4301 0x39 @ ustr ''S'') = Inl ValueError
   \<and> \<not> spec_grammar (ustr ''1H'') \<and> iso8601_duration_to_seconds (ustr ''1H'') = Inr 0"
proof -
  let ?long = "Some (replicate 4301 (0x39::int))"
  have c: "spec_count (Some (ustr ''1'')) \<and> spec_count (Some (ustr ''02'')) \<and> spec_count None
           \<and> spec_count (Some [0x663])"
    by code_simp
  have l: "spec_count ?long" using nines[of 4300] by (simp add: spec_count_def)
  have t: "spec_token (Some (ustr ''1'')) (Some (ustr ''02'')) None @ [] = ustr ''PT1H02M''"
    "spec_token None None (Some [0x663]) @ [] = [0x50, 0x54, 0x663, 0x53]"
    "spec_token None None ?long @ [] = ustr ''PT'' @ replicate 4301 0x39 @ ustr ''S''"
    by (simp_all add: spec_token_def spec_component_def ustr_def code_point_def)
  have k: "convertible (Some (ustr ''1'')) \<and> convertible (Some (ustr ''02'')) \<and> convertible None
           \<and> convertible (Some [0x663]) \<and> \<not> convertible ?long"
    by (simp add: convertible_def int_max_str_digits_def ustr_def)
  have v: "spec_value (Some (ustr ''1'')) * 3600 + spec_value (Some (ustr ''02'')) * 60
             + spec_value None = 3720"
    "spec_value None * 3600 + spec_value None * 60 + spec_value (Some [0x663]) = 3"
    by code_simp+
  have g: "\<not> spec_grammar (ustr ''1H'')"
    by (auto simp: spec_grammar_def spec_token_def ustr_def code_point_def)
  have g': "\<not> (\<exists>t. spec_grammar t \<and> ustr ''1H'' = t @ [0x0A])"
    by (simp add: ustr_def code_point_def)
  have 1: "iso8601_duration_to_seconds (ustr ''PT1H02M'') = Inr 3720"
    using duration_codec[of "ustr ''1H''" "Some (ustr ''1'')" "Some (ustr ''02'')" None "[]"]
      c t(1) k v(1) by simp
  have n: "iso8601_duration_to_seconds (ustr ''PT1H02M'' @ [0x0A]) = Inr 3720"
    using duration_codec[of "ustr ''1H''" "Some (ustr ''1'')" "Some (ustr ''02'')" None "[0x0A]"]
      c t(1) k v(1) by simp
  have 2: "iso8601_duration_to_seconds [0x50, 0x54, 0x663, 0x53] = Inr 3"
    using duration_codec[of "ustr ''1H''" None None "Some [0x663]" "[]"] c t(2) k v(2) by simp
  have 3: "iso8601_duration_to_seconds (ustr ''PT'' @ replicate 4301 0x39 @ ustr ''S'')
             = Inl ValueError"
    using duration_codec[of "ustr ''1H''" None None ?long "[]"] c l t(3) k by simp
  have 4: "iso8601_duration_to_seconds (ustr ''1H'') = Inr 0"
    using duration_codec[of "ustr ''1H''" None None None "[]"] g g' by blast
  from 1 n 2 3 4 g show ?thesis by simp
qed

text \<open>
  Claim C7 as stated fails: a token followed by a newline is not in the grammar, and the
  codec does not return 0 for it; and a token with a run of 4301 digits makes the codec
  raise.
\<close>

theorem duration_trailing_newline_counterexample:
  "\<not> spec_grammar (ustr ''PT5S'' @ [0x0A])
   \<and> iso8601_duration_to_seconds (ustr ''PT5S'' @ [0x0A]) = Inr 5
   \<and> spec_grammar (ustr ''PT'' @ replicate 4301 0x39 @ ustr ''S'')
   \<and> iso8601_duration_to_seconds (ustr ''PT'' @ replicate 4301 0x39 @ ustr ''S'') = Inl ValueError"
proof -
  let ?long = "Some (replicate 4301 (0x39::int))"
  have "\<not> spec_grammar (ustr ''PT5S'' @ [0x0A])"
    using spec_grammar_chars[of "ustr ''PT5S'' @ [0x0A]" "0x0A"] markers(5)
    by (auto simp: ustr_def code_point_def)
  moreover have "iso8601_duration_to_seconds (ustr ''PT5S'' @ [0x0A]) = Inr 5" by code_simp
  moreover have l: "spec_count ?long" using nines[of 4300] by (simp add: spec_count_def)
  moreover have t: "spec_token None None ?long = ustr ''PT'' @ replicate 4301 0x39 @ ustr ''S''"
    by (simp add: spec_token_def spec_component_def ustr_def code_point_def)
  moreover have "spec_grammar (spec_token None None ?long)"
    unfolding spec_grammar_def using l by (intro exI[of _ None] exI[of _ ?long]) (simp add: spec_count_def)
  moreover have "iso8601_duration_to_seconds (spec_token None None ?long @ []) = Inl ValueError"
    using l by (subst codec_token) (simp_all add: spec_count_def convertible_def int_max_str_digits_def)
  ultimately show ?thesis by simp
qed

section \<open>Properties of the resilient API client\<close>

lemma quota_step:
  assumes "retries < max_retries" "quota_exceeded (attempt (c retries))"
  shows "safe_api_loop c retries =
           (fst (safe_api_loop c (retries + 1)),
            [Invoke, Notify Warning (QuotaRetry (2 ^ retries) (retries + 1)), Sleep (2 ^ retries)]
              @ snd (safe_api_loop c (retries + 1)))"
proof -
  from assms(2) obtain body where a: "attempt (c retries) = Inl (HttpError 403 body)"
    and s: "sublist ''quotaExceeded'' body"
    by (cases "attempt (c retries)" rule: quota_exceeded.cases) auto
  show ?thesis
    by (subst safe_api_loop.simps) (simp add: assms(1) a s initial_delay_def Let_def)
qed

lemma backoff_events_step:
  "i < k \<Longrightarrow> backoff_events i k =
     [Invoke, Notify Warning (QuotaRetry (2 ^ i) (i + 1)), Sleep (2 ^ i)] @ backoff_events (Suc i) k"
  by (simp add: backoff_events_def upt_conv_Cons)

lemma backoff_events_same: "backoff_events k k = []"
  by (simp add: backoff_events_def)

lemma quota_run:
  assumes "k \<le> max_retries" "\<forall>j. i \<le> j \<and> j < k \<longrightarrow> quota_exceeded (attempt (c j))" "i \<le> k"
  shows "safe_api_loop c i =
           (fst (safe_api_loop c k), backoff_events i k @ snd (safe_api_loop c k))"
  using assms
proof (induction "k - i" arbitrary: i)
  case 0
  then have "i = k" by simp
  then show ?case by (simp add: backoff_events_same)
next
  case (Suc n)
  then have lt: "i < k" by simp
  with Suc.prems have q: "quota_exceeded (attempt (c i))" and m: "i < max_retries" by auto
  have ih: "safe_api_loop c (Suc i) =
         (fst (safe_api_loop c k), backoff_events (Suc i) k @ snd (safe_api_loop c k))"
    using Suc.hyps(1)[of "Suc i"] Suc.hyps(2) Suc.prems lt by auto
  show ?case
    using quota_step[of i c] m q ih backoff_events_step[OF lt] by simp
qed

lemma loop_exhausted: "safe_api_loop c max_retries = (Inr None, [Notify Error RetriesExhausted])"
  by (subst safe_api_loop.simps) simp

lemma loop_success:
  "k < max_retries \<Longrightarrow> attempt (c k) = Inr p \<Longrightarrow> safe_api_loop c k = (Inr (Some p), [Invoke])"
  by (subst safe_api_loop.simps) simp

lemma loop_not_found:
  assumes "k < max_retries" "not_found (attempt (c k))"
  shows "safe_api_loop c k = (Inr None, [Invoke, Notify Warning (ResourceNotFound (projl (attempt (c k))))])"
proof -
  from assms(2) obtain body where a: "attempt (c k) = Inl (HttpError 404 body)"
    by (cases "attempt (c k)" rule: not_found.cases) auto
  show ?thesis by (subst safe_api_loop.simps) (simp add: assms(1) a)
qed

lemma loop_fatal:
  assumes "k < max_retries" "attempt (c k) = Inl e" "\<not> quota_exceeded (Inl e)" "\<not> not_found (Inl e)"
  shows "fst (safe_api_loop c k) = Inl e \<and> attempts (snd (safe_api_loop c k)) = 1 \<and> sleeps (snd (safe_api_loop c k)) = []"
  using assms
  by (subst (1 2 3) safe_api_loop.simps) (cases e; auto simp: attempts_def)

lemma backoff_events_0_4:
  "backoff_events 0 4 =
     [Invoke, Notify Warning (QuotaRetry 1 1), Sleep 1,
      Invoke, Notify Warning (QuotaRetry 2 2), Sleep 2,
      Invoke, Notify Warning (QuotaRetry 4 3), Sleep 4,
      Invoke, Notify Warning (QuotaRetry 8 4), Sleep 8]"
  by (simp add: backoff_events_def upt_conv_Cons)

lemma backoff_events_0_5:
  "backoff_events 0 5 =
     [Invoke, Notify Warning (QuotaRetry 1 1), Sleep 1,
      Invoke, Notify Warning (QuotaRetry 2 2), Sleep 2,
      Invoke, Notify Warning (QuotaRetry 4 3), Sleep 4,
      Invoke, Notify Warning (QuotaRetry 8 4), Sleep 8,
      Invoke, Notify Warning (QuotaRetry 16 5), Sleep 16]"
  by (simp add: backoff_events_def upt_conv_Cons)

lemma attempts_backoff: "attempts (backoff_events i k @ evs) = (k - i) + attempts evs"
proof (induction "k - i" arbitrary: i)
  case 0
  then show ?case by (simp add: backoff_events_def attempts_def)
next
  case (Suc n)
  then have lt: "i < k" by simp
  have "attempts (backoff_events (Suc i) k @ evs) = (k - Suc i) + attempts evs"
    using Suc.hyps(1)[of "Suc i"] Suc.hyps(2) by simp
  with lt show ?case by (simp add: backoff_events_step attempts_def)
qed

lemma sleeps_backoff: "sleeps (backoff_events i k @ evs) = map (\<lambda>j. 2 ^ j) [i..<k] @ sleeps evs"
proof (induction "k - i" arbitrary: i)
  case 0
  then show ?case by (simp add: backoff_events_def)
next
  case (Suc n)
  then have lt: "i < k" by simp
  have "sleeps (backoff_events (Suc i) k @ evs) = map (\<lambda>j. 2 ^ j) [Suc i..<k] @ sleeps evs"
    using Suc.hyps(1)[of "Suc i"] Suc.hyps(2) by simp
  with lt show ?case by (simp add: backoff_events_step upt_conv_Cons)
qed

text \<open>
  Claim C2. If the wrapped call answers quota-exceeded on its first four attempts and
  returns a payload on the fifth, \<open>safe_api_call\<close> returns that payload after exactly five
  attempts, having slept 1, 2, 4 and 8 time units, each sleep right after the failed attempt
  and before the next one. If it answers quota-exceeded five times in a row,
  \<open>safe_api_call\<close> returns \<open>None\<close> after exactly five attempts: there is no sixth.
\<close>

theorem safe_api_call_retry_policy:
  "((\<forall>k<4. quota_exceeded (attempt (c k))) \<and> attempt (c 4) = Inr payload \<longrightarrow>
      safe_api_call c =
        (Inr (Some payload),
         [Invoke, Notify Warning (QuotaRetry 1 1), Sleep 1,
          Invoke, Notify Warning (QuotaRetry 2 2), Sleep 2,
          Invoke, Notify Warning (QuotaRetry 4 3), Sleep 4,
          Invoke, Notify Warning (QuotaRetry 8 4), Sleep 8,
          Invoke])
      \<and> sleeps (snd (safe_api_call c)) = [1, 2, 4, 8]
      \<and> attempts (snd (safe_api_call c)) = 5)
   \<and> ((\<forall>k<5. quota_exceeded (attempt (c k))) \<longrightarrow>
      safe_api_call c =
        (Inr None,
         [Invoke, Notify Warning (QuotaRetry 1 1), Sleep 1,
          Invoke, Notify Warning (QuotaRetry 2 2), Sleep 2,
          Invoke, Notify Warning (QuotaRetry 4 3), Sleep 4,
          Invoke, Notify Warning (QuotaRetry 8 4), Sleep 8,
          Invoke, Notify Warning (QuotaRetry 16 5), Sleep 16,
          Notify Error RetriesExhausted])
      \<and> attempts (snd (safe_api_call c)) = 5)"
proof (intro conjI impI)
  assume a: "(\<forall>k<4. quota_exceeded (attempt (c k))) \<and> attempt (c 4) = Inr payload"
  have "safe_api_loop c 0 = (fst (safe_api_loop c 4), backoff_events 0 4 @ snd (safe_api_loop c 4))"
    using a by (intro quota_run) (auto simp: max_retries_def)
  moreover have "safe_api_loop c 4 = (Inr (Some payload), [Invoke])"
    using a by (intro loop_success) (auto simp: max_retries_def)
  ultimately show r: "safe_api_call c =
        (Inr (Some payload),
         [Invoke, Notify Warning (QuotaRetry 1 1), Sleep 1,
          Invoke, Notify Warning (QuotaRetry 2 2), Sleep 2,
          Invoke, Notify Warning (QuotaRetry 4 3), Sleep 4,
          Invoke, Notify Warning (QuotaRetry 8 4), Sleep 8,
          Invoke])"
    by (simp add: safe_api_call_def backoff_events_0_4)
  show "sleeps (snd (safe_api_call c)) = [1, 2, 4, 8]" by (simp add: r)
  show "attempts (snd (safe_api_call c)) = 5" by (simp add: r attempts_def)
next
  assume a: "\<forall>k<5. quota_exceeded (attempt (c k))"
  have "safe_api_loop c 0 = (fst (safe_api_loop c 5), backoff_events 0 5 @ snd (safe_api_loop c 5))"
    using a by (intro quota_run) (auto simp: max_retries_def)
  moreover have "safe_api_loop c 5 = (Inr None, [Notify Error RetriesExhausted])"
    using loop_exhausted[of c] by (simp add: max_retries_def)
  ultimately show r: "safe_api_call c =
        (Inr None,
         [Invoke, Notify Warning (QuotaRetry 1 1), Sleep 1,
          Invoke, Notify Warning (QuotaRetry 2 2), Sleep 2,
          Invoke, Notify Warning (QuotaRetry 4 3), Sleep 4,
          Invoke, Notify Warning (QuotaRetry 8 4), Sleep 8,
          Invoke, Notify Warning (QuotaRetry 16 5), Sleep 16,
          Notify Error RetriesExhausted])"
    by (simp add: safe_api_call_def backoff_events_0_5)
  show "attempts (snd (safe_api_call c)) = 5" by (simp add: r attempts_def)
qed


theorem safe_api_call_retry_policy_witness:
  "safe_api_call (\<lambda>k. if k < 4 then Inl (HttpError 403 ''quotaExceeded'')
                      else Inr (PyRequest (Inr (JObj [(''items'', JArr [])]))))
     = (Inr (Some (JObj [(''items'', JArr [])])),
        [Invoke, Notify Warning (QuotaRetry 1 1), Sleep 1,
         Invoke, Notify Warning (QuotaRetry 2 2), Sleep 2,
         Invoke, Notify Warning (QuotaRetry 4 3), Sleep 4,
         Invoke, Notify Warning (QuotaRetry 8 4), Sleep 8,
         Invoke])
   \<and> fst (safe_api_call (\<lambda>k. Inl (HttpError 403 ''quotaExceeded''))) = Inr None
   \<and> attempts (snd (safe_api_call (\<lambda>k. Inl (HttpError 403 ''quotaExceeded'')))) = 5"
proof -
  let ?c = "\<lambda>k::nat. if k < 4 then Inl (HttpError 403 ''quotaExceeded'')
                      else Inr (PyRequest (Inr (JObj [(''items'', JArr [])])))"
  let ?d = "\<lambda>k::nat. (Inl (HttpError 403 ''quotaExceeded'') :: exn + pyobj)"
  have s: "sublist ''quotaExceeded'' ''quotaExceeded''" by simp
  have h1: "(\<forall>k<4. quota_exceeded (attempt (?c k))) \<and> attempt (?c 4) = Inr (JObj [(''items'', JArr [])])"
    using s by (simp add: attempt_def)
  have h2: "\<forall>k<5. quota_exceeded (attempt (?d k))"
    using s by (simp add: attempt_def)
  have r1: "safe_api_call ?c =
        (Inr (Some (JObj [(''items'', JArr [])])),
         [Invoke, Notify Warning (QuotaRetry 1 1), Sleep 1,
          Invoke, Notify Warning (QuotaRetry 2 2), Sleep 2,
          Invoke, Notify Warning (QuotaRetry 4 3), Sleep 4,
          Invoke, Notify Warning (QuotaRetry 8 4), Sleep 8,
          Invoke])"
    using safe_api_call_retry_policy[of ?c "JObj [(''items'', JArr [])]"] h1 by blast
  have r2: "fst (safe_api_call ?d) = Inr None \<and> attempts (snd (safe_api_call ?d)) = 5"
    using safe_api_call_retry_policy[of ?d JNull] h2 by (auto simp: attempts_def)
  from r1 r2 show ?thesis by blast
qed

lemma loop_not_found_readings:
  assumes "k < max_retries" "not_found (attempt (c k))"
  shows "attempts (snd (safe_api_loop c k)) = 1" "sleeps (snd (safe_api_loop c k)) = []"
    "last (snd (safe_api_loop c k)) = Notify Warning (ResourceNotFound (projl (attempt (c k))))"
    "fst (safe_api_loop c k) = Inr None"
  using loop_not_found[of k c] assms by (simp_all add: attempts_def)

text \<open>
  Claim C3, as the code has it. The caller of \<open>safe_api_call\<close> gets one of three results:
  a payload, \<open>None\<close>, or a raised exception. The first attempt that is not quota-exceeded
  decides: a payload is returned; a 404 makes the call return \<open>None\<close> at once, with no
  sleep and no further attempt, after the warning that the resource was not found; any
  other error is raised again. Five quota-exceeded attempts make the call return \<open>None\<close>
  as well, after the error notification that the retries are used up. Not-found and the
  give-up therefore return the same value and differ only in the notification.
\<close>

theorem safe_api_call_outcomes:
  "(k < max_retries \<and> (\<forall>j<k. quota_exceeded (attempt (c j))) \<longrightarrow>
      (attempt (c k) = Inr p \<longrightarrow> fst (safe_api_call c) = Inr (Some p))
    \<and> (not_found (attempt (c k)) \<longrightarrow>
         fst (safe_api_call c) = Inr None
       \<and> last (snd (safe_api_call c)) = Notify Warning (ResourceNotFound (projl (attempt (c k))))
       \<and> attempts (snd (safe_api_call c)) = k + 1
       \<and> sleeps (snd (safe_api_call c)) = map (\<lambda>j. 2 ^ j) [0..<k])
    \<and> (attempt (c k) = Inl e \<and> \<not> quota_exceeded (Inl e) \<and> \<not> not_found (Inl e) \<longrightarrow>
         fst (safe_api_call c) = Inl e))
   \<and> ((\<forall>j<max_retries. quota_exceeded (attempt (c j))) \<longrightarrow>
         fst (safe_api_call c) = Inr None
       \<and> last (snd (safe_api_call c)) = Notify Error RetriesExhausted)"
proof (intro conjI impI)
  assume a: "k < max_retries \<and> (\<forall>j<k. quota_exceeded (attempt (c j)))"
  then have run: "safe_api_call c = (fst (safe_api_loop c k), backoff_events 0 k @ snd (safe_api_loop c k))"
    unfolding safe_api_call_def by (intro quota_run) auto
  from a have k: "k < max_retries" by simp
  {
    assume "attempt (c k) = Inr p"
    with run loop_success[of k c p] k show "fst (safe_api_call c) = Inr (Some p)" by simp
  }
  {
    assume nf: "not_found (attempt (c k))"
    note r = loop_not_found_readings[of k c, OF k nf]
    show "fst (safe_api_call c) = Inr None" using run r(4) by simp
    show "last (snd (safe_api_call c)) = Notify Warning (ResourceNotFound (projl (attempt (c k))))"
      using run loop_not_found[of k c] k nf by simp
    show "attempts (snd (safe_api_call c)) = k + 1"
      using run r(1) by (simp add: attempts_backoff)
    show "sleeps (snd (safe_api_call c)) = map (\<lambda>j. 2 ^ j) [0..<k]"
      using run r(2) by (simp add: sleeps_backoff)
  }
  {
    assume "attempt (c k) = Inl e \<and> \<not> quota_exceeded (Inl e) \<and> \<not> not_found (Inl e)"
    with run loop_fatal[of k c e] k show "fst (safe_api_call c) = Inl e" by simp
  }
next
  assume a: "\<forall>j<max_retries. quota_exceeded (attempt (c j))"
  then have run: "safe_api_call c =
      (fst (safe_api_loop c max_retries), backoff_events 0 max_retries @ snd (safe_api_loop c max_retries))"
    unfolding safe_api_call_def by (intro quota_run) auto
  show "fst (safe_api_call c) = Inr None" using run loop_exhausted[of c] by simp
  show "last (snd (safe_api_call c)) = Notify Error RetriesExhausted"
    using run loop_exhausted[of c] by simp
qed

theorem safe_api_call_outcomes_witness:
  "fst (safe_api_call (\<lambda>k. if k < 2 then Inl (HttpError 403 ''quotaExceeded'')
                            else Inl (HttpError 404 ''notFound''))) = Inr None
   \<and> sleeps (snd (safe_api_call (\<lambda>k. if k < 2 then Inl (HttpError 403 ''quotaExceeded'')
                            else Inl (HttpError 404 ''notFound'')))) = [1, 2]
   \<and> attempts (snd (safe_api_call (\<lambda>k. if k < 2 then Inl (HttpError 403 ''quotaExceeded'')
                            else Inl (HttpError 404 ''notFound'')))) = 3
   \<and> last (snd (safe_api_call (\<lambda>k. if k < 2 then Inl (HttpError 403 ''quotaExceeded'')
                            else Inl (HttpError 404 ''notFound''))))
       = Notify Warning (ResourceNotFound (HttpError 404 ''notFound''))
   \<and> last (snd (safe_api_call (\<lambda>k. Inl (HttpError 403 ''quotaExceeded''))))
       = Notify Error RetriesExhausted"
proof -
  let ?c = "\<lambda>k::nat. if k < 2 then (Inl (HttpError 403 ''quotaExceeded'') :: exn + pyobj)
                      else Inl (HttpError 404 ''notFound'')"
  let ?d = "\<lambda>k::nat. (Inl (HttpError 403 ''quotaExceeded'') :: exn + pyobj)"
  have s: "sublist ''quotaExceeded'' ''quotaExceeded''" by simp
  have h1: "(2::nat) < max_retries \<and> (\<forall>j<2. quota_exceeded (attempt (?c j)))"
    using s by (simp add: attempt_def max_retries_def)
  have h2: "not_found (attempt (?c 2))" by (simp add: attempt_def)
  have h3: "\<forall>j<max_retries. quota_exceeded (attempt (?d j))"
    using s by (simp add: attempt_def)
  have u: "map (\<lambda>j. (2::nat) ^ j) [0..<2] = [1, 2]" by (simp add: upt_conv_Cons)
  have p: "projl (attempt (?c 2)) = HttpError 404 ''notFound''" by (simp add: attempt_def)
  have r1: "fst (safe_api_call ?c) = Inr None
       \<and> last (snd (safe_api_call ?c)) = Notify Warning (ResourceNotFound (projl (attempt (?c 2))))
       \<and> attempts (snd (safe_api_call ?c)) = 2 + 1
       \<and> sleeps (snd (safe_api_call ?c)) = map (\<lambda>j. 2 ^ j) [0..<2]"
    using safe_api_call_outcomes[of 2 ?c] h1 h2 by blast
  have r2: "last (snd (safe_api_call ?d)) = Notify Error RetriesExhausted"
    using safe_api_call_outcomes[of 0 ?d] h3 by blast
  from r1 r2 show ?thesis unfolding p u by simp
qed

text \<open>
  Claim C3 as stated fails: a call that is not found and a call that uses up its retries
  hand the caller the same value.
\<close>

theorem not_found_and_give_up_counterexample:
  "safe_api_call (\<lambda>k. Inl (HttpError 404 ''notFound'')) =
     (Inr None, [Invoke, Notify Warning (ResourceNotFound (HttpError 404 ''notFound''))])
   \<and> fst (safe_api_call (\<lambda>k. Inl (HttpError 403 ''quotaExceeded''))) = Inr None
   \<and> fst (safe_api_call (\<lambda>k. Inl (HttpError 404 ''notFound'')))
       = fst (safe_api_call (\<lambda>k. Inl (HttpError 403 ''quotaExceeded'')))"
  by (simp add: safe_api_call_def safe_api_loop.simps attempt_def max_retries_def initial_delay_def)

section \<open>Properties of the call sites\<close>

lemma attempt_request_execute:
  "attempt (request_execute remote n req k) =
     (case remote (n + k) req of Inl e \<Rightarrow> Inl e | Inr d \<Rightarrow> Inl (AttributeError ''execute''))"
  by (simp add: attempt_def request_execute_def split: sum.splits)

lemma safe_api_loop_no_payload:
  assumes "\<forall>k q. attempt (c k) \<noteq> Inr q"
  shows "fst (safe_api_loop c i) \<noteq> Inr (Some p)"
  using assms
proof (induction c i rule: safe_api_loop.induct)
  case (1 c i)
  then show ?case
    by (subst safe_api_loop.simps) (auto split: sum.splits exn.splits simp: Let_def)
qed

text \<open>
  At a call site of the repository \<open>safe_api_call\<close> never hands back a payload: whatever
  the platform answers, the result is \<open>None\<close> or a raised exception.
\<close>

lemma call_site_never_payload: "fst (call_site remote req w) \<noteq> Inr (Some p)"
  unfolding call_site_def run_call_def safe_api_call_def Let_def fst_conv
  by (rule safe_api_loop_no_payload) (simp add: attempt_request_execute split: sum.splits)

lemma http_log_notify: "http_log (notify l m w) = http_log w"
  by (simp add: notify_def)

lemma call_site_payload:
  assumes "remote (length (http_log w)) req = Inr d"
  shows "call_site remote req w =
           (Inl (AttributeError ''execute''),
            \<lparr>http_log = http_log w @ [req],
             trace = trace w @ [Invoke, Notify Error (UnexpectedCallError (AttributeError ''execute''))]\<rparr>)"
  using assms
  by (simp add: call_site_def run_call_def safe_api_call_def safe_api_loop.simps
        attempt_def request_execute_def max_retries_def attempts_def Let_def)

lemma call_site_not_found:
  assumes "remote (length (http_log w)) req = Inl (HttpError 404 m)"
  shows "call_site remote req w =
           (Inr None,
            \<lparr>http_log = http_log w @ [req],
             trace = trace w @ [Invoke, Notify Warning (ResourceNotFound (HttpError 404 m))]\<rparr>)"
  using assms
  by (simp add: call_site_def run_call_def safe_api_call_def safe_api_loop.simps
        attempt_def request_execute_def max_retries_def attempts_def Let_def)

lemma list_method_payload:
  assumes "remote (length (http_log w)) req = Inr d"
  shows "run_call (list_method remote) req w =
           (Inr (Some d), \<lparr>http_log = http_log w @ [req], trace = trace w @ [Invoke]\<rparr>)"
  using assms
  by (simp add: run_call_def safe_api_call_def safe_api_loop.simps
        attempt_def list_method_def max_retries_def attempts_def Let_def)

text \<open>
  A request the platform refuses with a status other than 404, and not for the quota, is
  re-raised by \<open>safe_api_call\<close> (lines 99--101), whatever the shape of the callable.
\<close>

lemma call_site_refused:
  assumes "remote (length (http_log w)) req = Inl (HttpError status body)"
    and "\<not> (status = 403 \<and> sublist ''quotaExceeded'' body)" and "status \<noteq> 404"
  shows "call_site remote req w =
           (Inl (HttpError status body),
            \<lparr>http_log = http_log w @ [req],
             trace = trace w @ [Invoke, Notify Error (UnexpectedApiError (HttpError status body))]\<rparr>)"
  using assms
  by (simp add: call_site_def run_call_def safe_api_call_def safe_api_loop.simps
        attempt_def request_execute_def max_retries_def attempts_def Let_def)

lemma list_method_refused:
  assumes "remote (length (http_log w)) req = Inl (HttpError status body)"
    and "\<not> (status = 403 \<and> sublist ''quotaExceeded'' body)" and "status \<noteq> 404"
  shows "run_call (list_method remote) req w =
           (Inl (HttpError status body),
            \<lparr>http_log = http_log w @ [req],
             trace = trace w @ [Invoke, Notify Error (UnexpectedApiError (HttpError status body))]\<rparr>)"
  using assms
  by (simp add: run_call_def safe_api_call_def safe_api_loop.simps
        attempt_def list_method_def max_retries_def attempts_def Let_def)

text \<open>
  For every channel list: when the platform answers the lookup of the first channel with a
  payload, \<open>playlist_videos_id\<close> raises at that call.
\<close>

lemma playlist_videos_id_first_payload:
  assumes "remote (length (http_log w)) (ChannelsList ''contentDetails'' c) = Inr d"
  shows "playlist_videos_id fuel remote (c # cs) w =
           Some (Inl (AttributeError ''execute''),
                 \<lparr>http_log = http_log w @ [ChannelsList ''contentDetails'' c],
                  trace = trace w @ [Notify Info (FetchingPlaylist c), Invoke,
                                     Notify Error (UnexpectedCallError (AttributeError ''execute''))]\<rparr>)"
proof -
  have "call_site remote (ChannelsList ''contentDetails'' c) (notify Info (FetchingPlaylist c) w) =
          (Inl (AttributeError ''execute''),
           \<lparr>http_log = http_log w @ [ChannelsList ''contentDetails'' c],
            trace = trace w @ [Notify Info (FetchingPlaylist c), Invoke,
                               Notify Error (UnexpectedCallError (AttributeError ''execute''))]\<rparr>)"
    using assms by (subst call_site_payload[where d = d]) (simp_all add: notify_def)
  then show ?thesis by (simp add: playlist_videos_id_def playlist_videos_id_with_def)
qed

text \<open>
  For every batch: when the platform answers the first request for the first video with a
  payload, whatever it holds, \<open>comments_inf\<close> raises at that call.
\<close>

lemma comments_inf_first_payload:
  assumes "remote (length (http_log w)) (CommentThreadsList v JNull) = Inr d"
  shows "comments_inf (Suc fuel) remote (v # vs) chan w =
           Some (Inl (AttributeError ''execute''),
                 \<lparr>http_log = http_log w @ [CommentThreadsList v JNull],
                  trace = trace w @ [Notify Subheader (FetchingComments (Suc (length vs))),
                                     Notify Write (FetchingCommentsFor v), Invoke,
                                     Notify Error (UnexpectedCallError (AttributeError ''execute''))]\<rparr>)"
proof -
  have "call_site remote (CommentThreadsList v JNull)
          (notify Write (FetchingCommentsFor v)
             (notify Subheader (FetchingComments (Suc (length vs))) w)) =
          (Inl (AttributeError ''execute''),
           \<lparr>http_log = http_log w @ [CommentThreadsList v JNull],
            trace = trace w @ [Notify Subheader (FetchingComments (Suc (length vs))),
                               Notify Write (FetchingCommentsFor v), Invoke,
                               Notify Error (UnexpectedCallError (AttributeError ''execute''))]\<rparr>)"
    using assms by (subst call_site_payload[where d = d]) (simp_all add: notify_def)
  then show ?thesis by (simp add: comments_inf_def comments_inf_with_def)
qed

text \<open>Whenever the platform answers the channel lookup with a payload, \<open>channel_info\<close> raises.\<close>

lemma channel_info_payload:
  assumes "remote (length (http_log w)) (ChannelsList ''snippet,contentDetails,statistics'' c) = Inr d"
  shows "fst (channel_info remote c w) = Inl (AttributeError ''execute'')"
  using call_site_payload[of remote w "ChannelsList ''snippet,contentDetails,statistics'' c" d] assms
  by (simp add: channel_info_def channel_info_with_def)

section \<open>Properties of the video-detail fetch\<close>

lemma concat_slices:
  "concat (map (\<lambda>j. take 50 (drop (50 * j) xs)) [0..<k]) = take (50 * k) xs"
proof (induction k)
  case 0
  then show ?case by simp
next
  case (Suc k)
  have "take (50 * Suc k) xs = take (50 * k + 50) xs" by (simp add: add.commute)
  also have "\<dots> = take (50 * k) xs @ take 50 (drop (50 * k) xs)" by (rule take_add)
  finally show ?case using Suc by simp
qed

lemma batches_partition:
  "concat (batches video_ids) = video_ids"
  "list_all (\<lambda>b. b \<noteq> [] \<and> length b \<le> 50) (batches video_ids)"
proof -
  have "50 * ((length video_ids + 49) div 50) \<ge> length video_ids" by arith
  then show "concat (batches video_ids) = video_ids"
    by (simp add: batches_def batch_starts_def map_map comp_def concat_slices)
  have "\<And>j. j < (length video_ids + 49) div 50 \<Longrightarrow> 50 * j < length video_ids" by arith
  then show "list_all (\<lambda>b. b \<noteq> [] \<and> length b \<le> 50) (batches video_ids)"
    by (auto simp: batches_def batch_starts_def list_all_iff)
qed

lemma batches_123:
  assumes "length video_ids = 123"
  shows "batches video_ids =
           [take 50 video_ids, take 50 (drop 50 video_ids), take 50 (drop 100 video_ids)]"
proof -
  have "[0..<(3::nat)] = [0, 1, 2]" by (simp add: upt_conv_Cons)
  then show ?thesis using assms by (simp add: batches_def batch_starts_def)
qed

lemma batches_first:
  assumes "video_ids \<noteq> []"
  shows "\<exists>rest. batches video_ids = take 50 video_ids # rest"
proof -
  have "0 < length video_ids" using assms by simp
  then have "0 < (length video_ids + 49) div 50" by arith
  then have "[0..<(length video_ids + 49) div 50] = 0 # [1..<(length video_ids + 49) div 50]"
    by (simp add: upt_conv_Cons)
  then show ?thesis by (simp add: batches_def batch_starts_def)
qed

text \<open>
  For every input that is not empty: when the platform answers the first batch with a
  payload, \<open>videos_data\<close> raises at that batch.
\<close>

lemma videos_data_first_payload:
  assumes "video_ids \<noteq> []"
    and "remote (length (http_log w)) (VideosList (take 50 video_ids)) = Inr d"
  shows "videos_data remote video_ids w =
           (Inl (AttributeError ''execute''),
            \<lparr>http_log = http_log w @ [VideosList (take 50 video_ids)],
             trace = trace w @ [Notify Subheader FetchingVideoDetails,
                                Notify Write (FetchingBatch (take 50 video_ids)), Invoke,
                                Notify Error (UnexpectedCallError (AttributeError ''execute''))]\<rparr>)"
proof -
  from batches_first[OF assms(1)] obtain rest where b: "batches video_ids = take 50 video_ids # rest" ..
  have "call_site remote (VideosList (take 50 video_ids))
          (notify Write (FetchingBatch (take 50 video_ids)) (notify Subheader FetchingVideoDetails w))
        = (Inl (AttributeError ''execute''),
            \<lparr>http_log = http_log w @ [VideosList (take 50 video_ids)],
             trace = trace w @ [Notify Subheader FetchingVideoDetails,
                                Notify Write (FetchingBatch (take 50 video_ids)), Invoke,
                                Notify Error (UnexpectedCallError (AttributeError ''execute''))]\<rparr>)"
    using assms(2) by (subst call_site_payload[where d = d]) (simp_all add: notify_def)
  then show ?thesis using assms(1) b by (simp add: videos_data_def videos_data_with_def)
qed

text \<open>When every call is answered 404, each batch is asked for once and skipped.\<close>

lemma videos_batches_gone:
  "fst (videos_batches (call_site remote_gone) bs acc w) = Inr acc
   \<and> http_log (snd (videos_batches (call_site remote_gone) bs acc w)) = http_log w @ map VideosList bs"
proof (induction bs arbitrary: w)
  case Nil
  then show ?case by simp
next
  case (Cons b bs)
  have c: "call_site remote_gone (VideosList b) (notify Write (FetchingBatch b) w) =
          (Inr None,
           \<lparr>http_log = http_log w @ [VideosList b],
            trace = trace w @ [Notify Write (FetchingBatch b), Invoke,
                               Notify Warning (ResourceNotFound (HttpError 404 ''notFound''))]\<rparr>)"
    by (subst call_site_not_found[where m = "''notFound''"]) (simp_all add: remote_gone_def notify_def)
  show ?case using Cons[of "notify Warning (NoBatchData b) \<lparr>http_log = http_log w @ [VideosList b],
            trace = trace w @ [Notify Write (FetchingBatch b), Invoke,
                               Notify Warning (ResourceNotFound (HttpError 404 ''notFound''))]\<rparr>"]
    by (simp add: c http_log_notify)
qed

lemma iso_pt0s: "iso8601_duration_to_seconds (ustr ''PT0S'') = Inr 0"
  by code_simp

lemma video_info_bare: "video_info (JObj [(''id'', JStr v)]) = Inr (bare_video_row v)"
  by (simp add: video_info_def ebind_def py_join_def duration_of_def iso_pt0s bare_video_row_def)

lemma emap_video_info_bare:
  "emap video_info (map (\<lambda>v. JObj [(''id'', JStr v)]) b) = Inr (map bare_video_row b)"
  by (induction b) (simp_all add: video_info_bare ebind_def)

text \<open>
  Handed a callable of the shape \<open>safe_api_call\<close> expects, the loop asks for each batch
  once and returns the records of all batches in order.
\<close>

lemma videos_batches_list_method:
  assumes "list_all (\<lambda>b. b \<noteq> []) bs"
  shows "fst (videos_batches (run_call (list_method remote_videos)) bs acc w)
           = Inr (acc @ map bare_video_row (concat bs))
   \<and> http_log (snd (videos_batches (run_call (list_method remote_videos)) bs acc w))
           = http_log w @ map VideosList bs"
  using assms
proof (induction bs arbitrary: w acc)
  case Nil
  then show ?case by simp
next
  case (Cons b bs)
  let ?d = "JObj [(''items'', JArr (map (\<lambda>v. JObj [(''id'', JStr v)]) b))]"
  let ?w1 = "\<lparr>http_log = http_log w @ [VideosList b],
              trace = trace w @ [Notify Write (FetchingBatch b), Invoke]\<rparr>"
  have c: "run_call (list_method remote_videos) (VideosList b) (notify Write (FetchingBatch b) w) =
          (Inr (Some ?d), ?w1)"
    by (subst list_method_payload[where d = ?d]) (simp_all add: remote_videos_def notify_def)
  from Cons.prems have ne: "b \<noteq> []" and rest: "list_all (\<lambda>b. b \<noteq> []) bs" by simp_all
  have h: "has_items ?d = Inr True" using ne by (simp add: has_items_def ebind_def)
  have r: "batch_records ?d = Inr (map bare_video_row b)"
    by (simp add: batch_records_def ebind_def emap_video_info_bare)
  show ?case using Cons.IH[OF rest, of "acc @ map bare_video_row b" ?w1]
    by (simp add: c h r)
qed

lemma length_ids123: "length ids123 = 123"
  by (simp add: ids123_def)

lemma ids123_nonempty: "ids123 \<noteq> []"
  using length_ids123 by auto

text \<open>
  Claim C8 at 123 ids: the slices have sizes 50, 50 and 23 and make up the input. When
  every call is answered 404, three calls of these sizes are made and each batch is skipped.
  When the platform answers with the videos, the function raises \<open>AttributeError\<close> at the
  first batch: one call, no record. Handed a callable of the shape \<open>safe_api_call\<close>
  expects, the same loop makes the three calls and returns the records in input order.
\<close>

theorem videos_data_raises:
  "map length (batches ids123) = [50, 50, 23]
   \<and> concat (batches ids123) = ids123
   \<and> fst (videos_data remote_gone ids123 world0) = Inr []
   \<and> map request_size (http_log (snd (videos_data remote_gone ids123 world0))) = [50, 50, 23]
   \<and> fst (videos_data remote_videos ids123 world0) = Inl (AttributeError ''execute'')
   \<and> map request_size (http_log (snd (videos_data remote_videos ids123 world0))) = [50]
   \<and> map request_size
       (http_log (snd (videos_data_with (run_call (list_method remote_videos)) ids123 world0)))
       = [50, 50, 23]
   \<and> fst (videos_data_with (run_call (list_method remote_videos)) ids123 world0)
       = Inr (map bare_video_row ids123)"
proof -
  note b = batches_123[OF length_ids123]
  have sizes: "map length (batches ids123) = [50, 50, 23]"
    by (simp add: b length_ids123)
  have sz: "map request_size (map VideosList (batches ids123)) = [50, 50, 23]"
    using sizes by (simp add: comp_def)
  have gone: "videos_data remote_gone ids123 world0 =
      videos_batches (call_site remote_gone) (batches ids123) []
        (notify Subheader FetchingVideoDetails world0)"
    using ids123_nonempty by (simp add: videos_data_def videos_data_with_def)
  have lm: "videos_data_with (run_call (list_method remote_videos)) ids123 world0 =
      videos_batches (run_call (list_method remote_videos)) (batches ids123) []
        (notify Subheader FetchingVideoDetails world0)"
    using ids123_nonempty by (simp add: videos_data_with_def)
  have ne: "list_all (\<lambda>b. b \<noteq> []) (batches ids123)"
    using batches_partition(2)[of ids123] by (simp add: list_all_iff)
  have raises: "videos_data remote_videos ids123 world0 =
      (Inl (AttributeError ''execute''),
       \<lparr>http_log = http_log world0 @ [VideosList (take 50 ids123)],
        trace = trace world0 @ [Notify Subheader FetchingVideoDetails,
                                Notify Write (FetchingBatch (take 50 ids123)), Invoke,
                                Notify Error (UnexpectedCallError (AttributeError ''execute''))]\<rparr>)"
    by (rule videos_data_first_payload[OF ids123_nonempty]) (simp add: remote_videos_def)
  have l50: "length (take 50 ids123) = 50" by (simp add: length_ids123)
  have w: "http_log (notify Subheader FetchingVideoDetails world0) = []"
    by (simp add: http_log_notify world0_def)
  have g: "fst (videos_data remote_gone ids123 world0) = Inr []
      \<and> http_log (snd (videos_data remote_gone ids123 world0)) = map VideosList (batches ids123)"
    using videos_batches_gone[of "batches ids123" "[]" "notify Subheader FetchingVideoDetails world0"]
    by (simp add: gone w)
  have l: "fst (videos_data_with (run_call (list_method remote_videos)) ids123 world0)
        = Inr (map bare_video_row ids123)
      \<and> http_log (snd (videos_data_with (run_call (list_method remote_videos)) ids123 world0))
        = map VideosList (batches ids123)"
    using videos_batches_list_method[OF ne, of "[]" "notify Subheader FetchingVideoDetails world0"]
      batches_partition(1)[of ids123]
    by (simp add: lm w)
  have r: "fst (videos_data remote_videos ids123 world0) = Inl (AttributeError ''execute'')
      \<and> map request_size (http_log (snd (videos_data remote_videos ids123 world0))) = [50]"
    unfolding raises by (simp add: length_ids123 world0_def)
  show ?thesis
    using sizes batches_partition(1)[of ids123] g l r sz by simp
qed

section \<open>Properties of the comment fetch\<close>

text \<open>
  For every batch: when the platform refuses the first request for the first video with a
  status other than 404, and not for the quota, the exception leaves \<open>comments_inf\<close> at
  that call and no other video is asked for. This holds as well when the loop is handed a
  callable of the shape \<open>safe_api_call\<close> expects.
\<close>

lemma comments_inf_first_refused:
  assumes "remote (length (http_log w)) (CommentThreadsList v JNull) = Inl (HttpError status body)"
    and "\<not> (status = 403 \<and> sublist ''quotaExceeded'' body)" and "status \<noteq> 404"
  shows "comments_inf (Suc fuel) remote (v # vs) chan w =
           Some (Inl (HttpError status body),
                 \<lparr>http_log = http_log w @ [CommentThreadsList v JNull],
                  trace = trace w @ [Notify Subheader (FetchingComments (Suc (length vs))),
                                     Notify Write (FetchingCommentsFor v), Invoke,
                                     Notify Error (UnexpectedApiError (HttpError status body))]\<rparr>)"
proof -
  have "call_site remote (CommentThreadsList v JNull)
          (notify Write (FetchingCommentsFor v)
             (notify Subheader (FetchingComments (Suc (length vs))) w)) =
          (Inl (HttpError status body),
           \<lparr>http_log = http_log w @ [CommentThreadsList v JNull],
            trace = trace w @ [Notify Subheader (FetchingComments (Suc (length vs))),
                               Notify Write (FetchingCommentsFor v), Invoke,
                               Notify Error (UnexpectedApiError (HttpError status body))]\<rparr>)"
    using assms
    by (subst call_site_refused[where status = status and body = body]) (simp_all add: notify_def)
  then show ?thesis by (simp add: comments_inf_def comments_inf_with_def)
qed

lemma comments_inf_with_first_refused:
  assumes "remote (length (http_log w)) (CommentThreadsList v JNull) = Inl (HttpError status body)"
    and "\<not> (status = 403 \<and> sublist ''quotaExceeded'' body)" and "status \<noteq> 404"
  shows "comments_inf_with (Suc fuel) (run_call (list_method remote)) (v # vs) chan w =
           Some (Inl (HttpError status body),
                 \<lparr>http_log = http_log w @ [CommentThreadsList v JNull],
                  trace = trace w @ [Notify Subheader (FetchingComments (Suc (length vs))),
                                     Notify Write (FetchingCommentsFor v), Invoke,
                                     Notify Error (UnexpectedApiError (HttpError status body))]\<rparr>)"
proof -
  have "run_call (list_method remote) (CommentThreadsList v JNull)
          (notify Write (FetchingCommentsFor v)
             (notify Subheader (FetchingComments (Suc (length vs))) w)) =
          (Inl (HttpError status body),
           \<lparr>http_log = http_log w @ [CommentThreadsList v JNull],
            trace = trace w @ [Notify Subheader (FetchingComments (Suc (length vs))),
                               Notify Write (FetchingCommentsFor v), Invoke,
                               Notify Error (UnexpectedApiError (HttpError status body))]\<rparr>)"
    using assms
    by (subst list_method_refused[where status = status and body = body]) (simp_all add: notify_def)
  then show ?thesis by (simp add: comments_inf_with_def)
qed

text \<open>
  Claim C1 at a batch of two videos. The platform refuses the request for a video whose
  comments are disabled with status 403; \<open>safe_api_call\<close> re-raises it, the exception
  leaves \<open>comments_inf\<close>, and the second video is never asked for, where the claim wants
  no record for the first video and the fetch of the second. The same happens for a 403
  with another reason, and also when the loop is handed a callable of the shape
  \<open>safe_api_call\<close> expects. The test of lines 312--319 looks for the signal in a payload:
  if the platform delivered it so, the function would raise \<open>AttributeError\<close> at that call,
  and only with a callable of the expected shape would the first video be skipped and the
  second fetched.
\<close>

theorem comments_disabled_aborts_batch:
  "comments_inf 5 remote_disabled [''v1'', ''v2''] ''UC1'' world0 =
     Some (Inl (HttpError 403 ''commentsDisabled''),
           \<lparr>http_log = [CommentThreadsList ''v1'' JNull],
            trace = [Notify Subheader (FetchingComments 2),
                     Notify Write (FetchingCommentsFor ''v1''), Invoke,
                     Notify Error (UnexpectedApiError (HttpError 403 ''commentsDisabled''))]\<rparr>)
   \<and> comments_inf 5 remote_disabled [''v3'', ''v2''] ''UC1'' world0 =
     Some (Inl (HttpError 403 ''forbidden''),
           \<lparr>http_log = [CommentThreadsList ''v3'' JNull],
            trace = [Notify Subheader (FetchingComments 2),
                     Notify Write (FetchingCommentsFor ''v3''), Invoke,
                     Notify Error (UnexpectedApiError (HttpError 403 ''forbidden''))]\<rparr>)
   \<and> comments_inf_with 5 (run_call (list_method remote_disabled)) [''v1'', ''v2''] ''UC1'' world0 =
     Some (Inl (HttpError 403 ''commentsDisabled''),
           \<lparr>http_log = [CommentThreadsList ''v1'' JNull],
            trace = [Notify Subheader (FetchingComments 2),
                     Notify Write (FetchingCommentsFor ''v1''), Invoke,
                     Notify Error (UnexpectedApiError (HttpError 403 ''commentsDisabled''))]\<rparr>)
   \<and> comments_inf 5 remote_comments [''v1'', ''v2''] ''UC1'' world0 =
     Some (Inl (AttributeError ''execute''),
           \<lparr>http_log = [CommentThreadsList ''v1'' JNull],
            trace = [Notify Subheader (FetchingComments 2),
                     Notify Write (FetchingCommentsFor ''v1''), Invoke,
                     Notify Error (UnexpectedCallError (AttributeError ''execute''))]\<rparr>)
   \<and> comments_inf_with 5 (run_call (list_method remote_comments)) [''v1'', ''v2''] ''UC1'' world0 =
     Some (Inr [[(''comment_id'', JStr ''c1''), (''Comment_Text'', JStr ''hello''),
                 (''Comment_Authorname'', JNull), (''published_date'', JNull),
                 (''video_id'', JStr ''v2''), (''channel_id'', JStr ''UC1'')]],
           \<lparr>http_log = [CommentThreadsList ''v1'' JNull, CommentThreadsList ''v2'' JNull],
            trace = [Notify Subheader (FetchingComments 2),
                     Notify Write (FetchingCommentsFor ''v1''), Invoke,
                     Notify Warning (CommentsDisabled ''v1''),
                     Notify Write (FetchingCommentsFor ''v2''), Invoke]\<rparr>)"
proof -
  have w0: "http_log world0 = []" "trace world0 = []" by (simp_all add: world0_def)
  have 1: "comments_inf 5 remote_disabled [''v1'', ''v2''] ''UC1'' world0 =
     Some (Inl (HttpError 403 ''commentsDisabled''),
           \<lparr>http_log = [CommentThreadsList ''v1'' JNull],
            trace = [Notify Subheader (FetchingComments 2),
                     Notify Write (FetchingCommentsFor ''v1''), Invoke,
                     Notify Error (UnexpectedApiError (HttpError 403 ''commentsDisabled''))]\<rparr>)"
    by code_simp
  have 2: "comments_inf 5 remote_disabled [''v3'', ''v2''] ''UC1'' world0 =
     Some (Inl (HttpError 403 ''forbidden''),
           \<lparr>http_log = [CommentThreadsList ''v3'' JNull],
            trace = [Notify Subheader (FetchingComments 2),
                     Notify Write (FetchingCommentsFor ''v3''), Invoke,
                     Notify Error (UnexpectedApiError (HttpError 403 ''forbidden''))]\<rparr>)"
    by code_simp
  have 3: "comments_inf_with 5 (run_call (list_method remote_disabled)) [''v1'', ''v2''] ''UC1'' world0 =
     Some (Inl (HttpError 403 ''commentsDisabled''),
           \<lparr>http_log = [CommentThreadsList ''v1'' JNull],
            trace = [Notify Subheader (FetchingComments 2),
                     Notify Write (FetchingCommentsFor ''v1''), Invoke,
                     Notify Error (UnexpectedApiError (HttpError 403 ''commentsDisabled''))]\<rparr>)"
    by code_simp
  have 4: "comments_inf 5 remote_comments [''v1'', ''v2''] ''UC1'' world0 =
     Some (Inl (AttributeError ''execute''),
           \<lparr>http_log = [CommentThreadsList ''v1'' JNull],
            trace = [Notify Subheader (FetchingComments 2),
                     Notify Write (FetchingCommentsFor ''v1''), Invoke,
                     Notify Error (UnexpectedCallError (AttributeError ''execute''))]\<rparr>)"
    by code_simp
  have 5: "comments_inf_with 5 (run_call (list_method remote_comments)) [''v1'', ''v2''] ''UC1'' world0 =
     Some (Inr [[(''comment_id'', JStr ''c1''), (''Comment_Text'', JStr ''hello''),
                 (''Comment_Authorname'', JNull), (''published_date'', JNull),
                 (''video_id'', JStr ''v2''), (''channel_id'', JStr ''UC1'')]],
           \<lparr>http_log = [CommentThreadsList ''v1'' JNull, CommentThreadsList ''v2'' JNull],
            trace = [Notify Subheader (FetchingComments 2),
                     Notify Write (FetchingCommentsFor ''v1''), Invoke,
                     Notify Warning (CommentsDisabled ''v1''),
                     Notify Write (FetchingCommentsFor ''v2''), Invoke]\<rparr>)"
    by code_simp
  from 1 2 3 4 5 show ?thesis by (intro conjI)
qed

section \<open>Properties of the video-id enumeration\<close>

text \<open>
  Claim C4 at a channel with three pages whose second page fails terminally: the claim
  asks for the two video ids of the first page. The function raises \<open>AttributeError\<close> at
  its first call and returns nothing. Handed a callable of the shape \<open>safe_api_call\<close>
  expects, the same loop returns the first page's ids.
\<close>

theorem playlist_videos_id_raises:
  "playlist_videos_id 5 remote_three_pages [''UC1''] world0 =
     Some (Inl (AttributeError ''execute''),
           \<lparr>http_log = [ChannelsList ''contentDetails'' ''UC1''],
            trace = [Notify Info (FetchingPlaylist ''UC1''), Invoke,
                     Notify Error (UnexpectedCallError (AttributeError ''execute''))]\<rparr>)
   \<and> playlist_videos_id_with 5 (run_call (list_method remote_three_pages)) [''UC1''] world0 =
     Some (Inr [JStr ''v1'', JStr ''v2''],
           \<lparr>http_log = [ChannelsList ''contentDetails'' ''UC1'',
                        PlaylistItemsList (JStr ''UU1'') JNull,
                        PlaylistItemsList (JStr ''UU1'') (JStr ''t2'')],
            trace = [Notify Info (FetchingPlaylist ''UC1''), Invoke, Invoke, Invoke,
                     Notify Warning (ResourceNotFound (HttpError 404 ''playlistItemsNotFound''))]\<rparr>)"
  by code_simp

section \<open>Properties of the channel fetch\<close>

text \<open>
  Claim C6 at a channel that hides its subscriber count: building the record raises
  \<open>KeyError\<close> where the claim asks for the count 0, and \<open>channel_info\<close> itself raises
  \<open>AttributeError\<close> before it gets there. The video record does what the claim says: a
  count the payload leaves out is 0.
\<close>

theorem channel_info_hidden_subscribers:
  "channel_data hidden_subscribers = Inl (KeyError ''subscriberCount'')
   \<and> fst (channel_info_with (run_call (list_method remote_hidden)) ''UC1'' world0)
       = Inl (KeyError ''subscriberCount'')
   \<and> fst (channel_info remote_hidden ''UC1'' world0) = Inl (AttributeError ''execute'')
   \<and> map_sum id (\<lambda>r. map (map_of r) [''Video_viewcount'', ''Video_likecount'',
                                       ''Video_favoritecount'', ''Video_commentcount''])
       (video_info (JObj [(''id'', JStr ''v1'')]))
       = Inr [Some (JNum 0), Some (JNum 0), Some (JNum 0), Some (JNum 0)]"
  by code_simp

section \<open>Properties of the video record\<close>

lemma ebind_Inr: "ebind m f = Inr y \<Longrightarrow> \<exists>x. m = Inr x \<and> f x = Inr y"
  by (cases m) (simp_all add: ebind_def)

text \<open>The duration a record holds is what the codec returns for the token of the item.\<close>

lemma video_info_duration:
  assumes "video_info item = Inr row"
    and "dict_get item ''contentDetails'' (JObj []) = Inr details"
    and "dict_get details ''duration'' (JStr ''PT0S'') = Inr (JStr tok)"
  shows "\<exists>n. iso8601_duration_to_seconds (ustr tok) = Inr n
             \<and> map_of row ''Video_duration'' = Some (JNum n)"
  using assms
  unfolding video_info_def
  by (auto dest!: ebind_Inr simp: duration_of_def)

lemma component_head:
  "spec_count g \<Longrightarrow> g \<noteq> None \<Longrightarrow> \<exists>c cs. is_digit c \<and> spec_component g u = c # cs"
  by (cases g) (auto simp: spec_count_def digit_run_def spec_component_def neq_Nil_conv)

lemma component_empty: "spec_component None u = []"
  by (simp add: spec_component_def)

lemma days_token_second:
  assumes "days_token tok"
  shows "\<exists>c cs. is_digit c \<and> tok = code_point (CHR ''P'') # c # cs"
proof -
  from assms obtain y mo w d rest where c: "spec_count y" "spec_count mo" "spec_count w" "spec_count d"
    and p: "w \<noteq> None \<or> d \<noteq> None"
    and t: "tok = ustr ''P'' @ spec_component y (CHR ''Y'') @ spec_component mo (CHR ''M'')
                   @ spec_component w (CHR ''W'') @ spec_component d (CHR ''D'') @ rest"
    unfolding days_token_def by blast
  let ?tail = "spec_component y (CHR ''Y'') @ spec_component mo (CHR ''M'')
                 @ spec_component w (CHR ''W'') @ spec_component d (CHR ''D'') @ rest"
  have "\<exists>c cs. is_digit c \<and> ?tail = c # cs"
  proof (cases y)
    case (Some a)
    with component_head[OF c(1), of "CHR ''Y''"] show ?thesis by auto
  next
    case y: None
    show ?thesis
    proof (cases mo)
      case (Some a)
      with component_head[OF c(2), of "CHR ''M''"] y show ?thesis by (auto simp: component_empty)
    next
      case mo: None
      show ?thesis
      proof (cases w)
        case (Some a)
        with component_head[OF c(3), of "CHR ''W''"] y mo show ?thesis
          by (auto simp: component_empty)
      next
        case w: None
        with p have "d \<noteq> None" by simp
        with component_head[OF c(4), of "CHR ''D''"] y mo w show ?thesis
          by (auto simp: component_empty)
      qed
    qed
  qed
  with t show ?thesis by (auto simp: ustr_def)
qed

lemma days_token_zero: "days_token tok \<Longrightarrow> iso8601_duration_to_seconds tok = Inr 0"
proof -
  assume "days_token tok"
  from days_token_second[OF this] obtain c cs
    where d: "is_digit c" and t: "tok = code_point (CHR ''P'') # c # cs" by blast
  from d markers(4) have "c \<noteq> code_point (CHR ''T'')" by auto
  with t show ?thesis by (simp add: iso8601_duration_to_seconds_def re_match_def)
qed

lemma days_token_example: "days_token (ustr ''P1DT2H3M4S'')"
  unfolding days_token_def
  apply (rule exI[of _ None])
  apply (rule exI[of _ None])
  apply (rule exI[of _ None])
  apply (rule exI[of _ "Some (ustr ''1'')"])
  apply (rule exI[of _ "ustr ''T2H3M4S''"])
  apply code_simp
  done

text \<open>
  For every store and every list of video ids that is not empty: when the platform answers
  the first batch with a payload, the handler raises before any insert and the store is
  unchanged.
\<close>

lemma main_video_data_first_payload:
  assumes "video_ids \<noteq> []"
    and "remote (length (http_log w)) (VideosList (take 50 video_ids)) = Inr p"
  shows "fst (main_video_data remote video_ids d w) = Inl (AttributeError ''execute'')
         \<and> fst (snd (main_video_data remote video_ids d w)) = d"
proof -
  have "http_log (notify Info (FoundVideoIds (length video_ids)) w) = http_log w"
    by (simp add: http_log_notify)
  with assms(2) have "remote (length (http_log (notify Info (FoundVideoIds (length video_ids)) w)))
          (VideosList (take 50 video_ids)) = Inr p" by simp
  with videos_data_first_payload[of video_ids remote
         "notify Info (FoundVideoIds (length video_ids)) w" p] assms(1)
  show ?thesis
    by (simp add: main_video_data_def main_video_data_with_def videos_data_def)
qed

text \<open>
  Claim C9. A token with a weeks or a days component decodes to 0, since the pattern is
  anchored to start with \<open>PT\<close>; \<^verbatim>\<open>"P1DT2H3M4S"\<close> is such a token. For a video with
  that duration the claim wants a row with \<open>Video_duration\<close> 0 in the store. The handler
  of \<^verbatim>\<open>main\<close> does not get there: \<open>videos_data\<close> raises \<open>AttributeError\<close> at its
  first call, no record is built and the \<^verbatim>\<open>videos\<close> table stays empty. Handed a
  callable of the shape \<open>safe_api_call\<close> expects, the same handler stores one row, and its
  \<open>Video_duration\<close> is 0.
\<close>

theorem days_component_yields_zero:
  "(days_token tok \<longrightarrow> iso8601_duration_to_seconds tok = Inr 0)
   \<and> days_token (ustr ''P1DT2H3M4S'')
   \<and> fst (videos_data remote_long [''v1''] world0) = Inl (AttributeError ''execute'')
   \<and> fst (main_video_data remote_long [''v1''] (startup_ddl db0) world0)
       = Inl (AttributeError ''execute'')
   \<and> map_option tbl_rows
       (fst (snd (main_video_data remote_long [''v1''] (startup_ddl db0) world0)) ''videos'')
       = Some []
   \<and> fst (main_video_data_with (run_call (list_method remote_long)) [''v1'']
            (startup_ddl db0) world0)
       = Inr ()
   \<and> map_option tbl_rows
       (fst (snd (main_video_data_with (run_call (list_method remote_long)) [''v1'']
                    (startup_ddl db0) world0)) ''videos'')
       = Some [bare_video_row ''v1'']
   \<and> map_of (bare_video_row ''v1'') ''Video_duration'' = Some (JNum 0)"
proof -
  have 1: "fst (videos_data remote_long [''v1''] world0) = Inl (AttributeError ''execute'')"
    by code_simp
  have 2: "fst (main_video_data remote_long [''v1''] (startup_ddl db0) world0)
       = Inl (AttributeError ''execute'')"
    by code_simp
  have 3: "map_option tbl_rows
       (fst (snd (main_video_data remote_long [''v1''] (startup_ddl db0) world0)) ''videos'')
       = Some []"
    by code_simp
  have 4: "fst (main_video_data_with (run_call (list_method remote_long)) [''v1'']
            (startup_ddl db0) world0)
       = Inr ()"
    by code_simp
  have 5: "map_option tbl_rows
       (fst (snd (main_video_data_with (run_call (list_method remote_long)) [''v1'']
                    (startup_ddl db0) world0)) ''videos'')
       = Some [bare_video_row ''v1'']"
    by code_simp
  have 6: "map_of (bare_video_row ''v1'') ''Video_duration'' = Some (JNum 0)"
    by code_simp
  from days_token_zero[of tok] days_token_example 1 2 3 4 5 6 show ?thesis by blast
qed

theorem days_component_yields_zero_witness:
  "days_token (ustr ''P1Y2DT3H'') \<and> iso8601_duration_to_seconds (ustr ''P1Y2DT3H'') = Inr 0"
proof -
  have d: "days_token (ustr ''P1Y2DT3H'')"
    unfolding days_token_def
    apply (rule exI[of _ "Some (ustr ''1'')"])
    apply (rule exI[of _ None])
    apply (rule exI[of _ None])
    apply (rule exI[of _ "Some (ustr ''2'')"])
    apply (rule exI[of _ "ustr ''T3H''"])
    apply code_simp
    done
  with days_component_yields_zero[of "ustr ''P1Y2DT3H''"] show ?thesis by blast
qed

section \<open>Properties of the store\<close>

lemma insert_row_grows:
  "insert_row t r = Inr t1 \<Longrightarrow> t1 = t\<lparr>tbl_rows := tbl_rows t @ [r]\<rparr>"
  by (auto simp: insert_row_def split: if_splits)

lemma to_sql_grows:
  "to_sql t df = Inr t1 \<Longrightarrow> t1 = t\<lparr>tbl_rows := tbl_rows t @ df\<rparr>"
proof (induction df arbitrary: t)
  case Nil
  then show ?case by simp
next
  case (Cons r df)
  from Cons.prems obtain t2 where i: "insert_row t r = Inr t2" and s: "to_sql t2 df = Inr t1"
    by (auto simp: ebind_def split: sum.splits)
  from insert_row_grows[OF i] Cons.IH[OF s] show ?case by simp
qed

lemma insert_row_keys:
  assumes "insert_row t r = Inr t1" "distinct (keys t)"
  shows "distinct (keys t1)"
  using assms
  by (auto simp: insert_row_def keys_def split: if_splits)

lemma to_sql_keys:
  "to_sql t df = Inr t1 \<Longrightarrow> distinct (keys t) \<Longrightarrow> distinct (keys t1)"
proof (induction df arbitrary: t)
  case Nil
  then show ?case by simp
next
  case (Cons r df)
  from Cons.prems obtain t2 where i: "insert_row t r = Inr t2" and s: "to_sql t2 df = Inr t1"
    by (auto simp: ebind_def split: sum.splits)
  from Cons.IH[OF s insert_row_keys[OF i Cons.prems(2)]] show ?case .
qed

lemma to_sql_existing_key:
  assumes "r \<in> set df" "key_of (tbl_schema t) r \<noteq> JNull"
    "key_of (tbl_schema t) r \<in> set (map (key_of (tbl_schema t)) (tbl_rows t))"
  shows "\<exists>e. to_sql t df = Inl e"
  using assms
proof (induction df arbitrary: t)
  case Nil
  then show ?case by simp
next
  case (Cons r0 df)
  show ?case
  proof (cases "insert_row t r0")
    case (Inl e)
    then show ?thesis by (simp add: ebind_def)
  next
    case (Inr t2)
    note g = insert_row_grows[OF Inr]
    have "r \<noteq> r0" using Inr Cons.prems(2,3)
      by (auto simp: insert_row_def split: if_splits)
    with Cons.prems(1) have "r \<in> set df" by simp
    moreover have "key_of (tbl_schema t2) r \<noteq> JNull" using g Cons.prems(2) by simp
    moreover have "key_of (tbl_schema t2) r \<in> set (map (key_of (tbl_schema t2)) (tbl_rows t2))"
      using g Cons.prems(3) by auto
    ultimately have "\<exists>e. to_sql t2 df = Inl e" by (rule Cons.IH)
    with Inr show ?thesis by (simp add: ebind_def)
  qed
qed

lemma create_existing:
  "d name = Some t \<Longrightarrow> create_table_if_not_exists name sch d = d"
  by (simp add: create_table_if_not_exists_def)

lemma create_lookup:
  "create_table_if_not_exists name sch d name \<noteq> None"
  by (simp add: create_table_if_not_exists_def split: option.splits)











lemma insert_videos_fail:
  assumes "d ''videos'' = Some t" "to_sql t df = Inl e"
  shows "insert_videos_into_sqlite df d w = (d, notify Error (VideoInsertError e) w)"
proof -
  from assms(2) have "df \<noteq> []" by auto
  with assms show ?thesis by (simp add: insert_videos_into_sqlite_def create_existing)
qed

lemma insert_comments_fail:
  assumes "d ''comments'' = Some t" "to_sql t df = Inl e"
  shows "insert_comments_into_sqlite df d w = (d, notify Error (CommentInsertError e) w)"
proof -
  from assms(2) have "df \<noteq> []" by auto
  with assms show ?thesis by (simp add: insert_comments_into_sqlite_def create_existing)
qed





text \<open>
  For every store and every list of channels: when the platform answers the lookup of the
  first channel with a payload, \<open>eachchanneldetails\<close> raises at that lookup, before any
  insert, and the store is what the \<^verbatim>\<open>CREATE TABLE\<close> statement left.
\<close>

lemma eachchanneldetails_first_payload:
  assumes "remote (length (http_log w)) (ChannelsList ''snippet,contentDetails,statistics'' c) = Inr p"
  shows "eachchanneldetails remote (c # cs) d w =
           (Inl (AttributeError ''execute''),
            create_table_if_not_exists ''channels'' channels_ddl d,
            \<lparr>http_log = http_log w @ [ChannelsList ''snippet,contentDetails,statistics'' c],
             trace = trace w @ [Invoke, Notify Error (UnexpectedCallError (AttributeError ''execute''))]\<rparr>)"
  using call_site_payload[of remote w "ChannelsList ''snippet,contentDetails,statistics'' c" p] assms
  by (simp add: eachchanneldetails_def eachchanneldetails_with_def channel_info_with_def)

lemma store_channel_empty:
  "store_channel cid [] d w = (d, notify Warning (ChannelNotFetched cid) w)"
  by (simp add: store_channel_def)

text \<open>
  Whatever exception \<open>to_sql\<close> raises, \<open>insert_videos_into_sqlite\<close> and
  \<open>insert_comments_into_sqlite\<close> report it through their one handler, at the level of an
  error, and the store is as before.
\<close>

lemma bulk_insert_failure:
  "d ''videos'' = Some t \<Longrightarrow> to_sql t df = Inl e \<Longrightarrow>
     insert_videos_into_sqlite df d w = (d, notify Error (VideoInsertError e) w)"
  "d ''comments'' = Some t' \<Longrightarrow> to_sql t' df = Inl e \<Longrightarrow>
     insert_comments_into_sqlite df d w = (d, notify Error (CommentInsertError e) w)"
  by (simp_all add: insert_videos_fail insert_comments_fail)

text \<open>
  Claim C5, on a store that holds one channel and on a store that holds one video and one
  comment.

  The channel insert is written to report a key that is present as
  \<^verbatim>\<open>already exists. Skipping insertion.\<close> (lines 150--151), but it is never reached:
  for the channel in the store, answered by the platform with its data,
  \<open>eachchanneldetails\<close> raises \<open>AttributeError\<close> at the lookup (line 145, through lines
  115 and 89), and the only notification is the error of \<open>safe_api_call\<close>.

  The bulk inserts have one handler for every failure (lines 278--280, 365--366). A record
  set with the key in the store and a new key is reported at the level of an error, as a
  record set the table has no column for is, and the record with the new key is not
  persisted either. In each case the row with the key stays one row.

  An empty record set is not inserted: a warning, and no row changes.
\<close>

theorem duplicate_key_not_skipped:
  "fst (eachchanneldetails remote_channel [''UC1''] db_channel world0)
     = Inl (AttributeError ''execute'')
   \<and> trace (snd (snd (eachchanneldetails remote_channel [''UC1''] db_channel world0)))
     = [Invoke, Notify Error (UnexpectedCallError (AttributeError ''execute''))]
   \<and> map_option tbl_rows
       (fst (snd (eachchanneldetails remote_channel [''UC1''] db_channel world0)) ''channels'')
     = Some [channel_row]
   \<and> map_option tbl_rows
       (fst (insert_videos_into_sqlite [video_a, video_b] db_one world0) ''videos'')
     = Some [video_a]
   \<and> levels (trace (snd (insert_videos_into_sqlite [video_a, video_b] db_one world0))) = [Error]
   \<and> levels (trace (snd (insert_videos_into_sqlite [video_odd] db_one world0))) = [Error]
   \<and> map_option tbl_rows
       (fst (insert_comments_into_sqlite [comment_a, comment_b] db_one world0) ''comments'')
     = Some [comment_a]
   \<and> levels (trace (snd (insert_comments_into_sqlite [comment_a, comment_b] db_one world0)))
     = [Error]
   \<and> insert_videos_into_sqlite [] d w =
       (create_table_if_not_exists ''videos'' videos_ddl d, notify Warning NoVideoData w)
   \<and> insert_comments_into_sqlite [] d w =
       (create_table_if_not_exists ''comments'' comments_ddl d, notify Warning NoCommentData w)
   \<and> store_channel cid [] d w = (d, notify Warning (ChannelNotFetched cid) w)"
proof -
  have 1: "fst (eachchanneldetails remote_channel [''UC1''] db_channel world0)
     = Inl (AttributeError ''execute'')"
    by code_simp
  have 2: "trace (snd (snd (eachchanneldetails remote_channel [''UC1''] db_channel world0)))
     = [Invoke, Notify Error (UnexpectedCallError (AttributeError ''execute''))]"
    by code_simp
  have 3: "map_option tbl_rows
       (fst (snd (eachchanneldetails remote_channel [''UC1''] db_channel world0)) ''channels'')
     = Some [channel_row]"
    by code_simp
  have 4: "map_option tbl_rows
       (fst (insert_videos_into_sqlite [video_a, video_b] db_one world0) ''videos'')
     = Some [video_a]"
    by code_simp
  have 5: "levels (trace (snd (insert_videos_into_sqlite [video_a, video_b] db_one world0)))
     = [Error]"
    by code_simp
  have 6: "levels (trace (snd (insert_videos_into_sqlite [video_odd] db_one world0))) = [Error]"
    by code_simp
  have 7: "map_option tbl_rows
       (fst (insert_comments_into_sqlite [comment_a, comment_b] db_one world0) ''comments'')
     = Some [comment_a]"
    by code_simp
  have 8: "levels (trace (snd (insert_comments_into_sqlite [comment_a, comment_b] db_one world0)))
     = [Error]"
    by code_simp
  have 9: "insert_videos_into_sqlite [] d w =
       (create_table_if_not_exists ''videos'' videos_ddl d, notify Warning NoVideoData w)"
    by (simp add: insert_videos_into_sqlite_def)
  have 10: "insert_comments_into_sqlite [] d w =
       (create_table_if_not_exists ''comments'' comments_ddl d, notify Warning NoCommentData w)"
    by (simp add: insert_comments_into_sqlite_def)
  from 1 2 3 4 5 6 7 8 9 10 store_channel_empty[of cid d w] show ?thesis by (intro conjI)
qed





end
